theory Spec2Isabelle
  imports Complex_Main "HOL-Library.Word"
begin

section \<open>The reader script of the e-book viewer (static/js/reader.js)\<close>

text \<open>
  The script is one \<open>DOMContentLoaded\<close> handler: five script variables, references to
  the elements of the hosting page, and one function per user action. The embedding keeps
  the five variables and the state of the elements the script writes in one record; every
  function of the script is a function from that record to the updated record. What the
  environment decides (the answer of the backend to a request, the answer to a
  \<open>confirm\<close> dialog, the entries the intersection observer reports, the text of the
  selection) is an argument of the function. An \<open>async\<close> function is run to
  completion with the answers it awaits as arguments; where the script starts one without
  awaiting it, the part up to its first \<open>await\<close> and the part after it are two
  functions, called in the order the event loop runs them.

  Not modelled: console output, scroll offsets and the geometry of the page surfaces
  (floating point), the text spans the PDF library draws, and the statements of two
  handlers interleaving at an \<open>await\<close> (the two functions of a split handler can
  be called with another handler between them).
\<close>

subsection \<open>Strings\<close>

text \<open>
  A JavaScript string is a sequence of 16-bit code units. \<open>lit\<close> writes an ASCII
  literal of the source.
\<close>

type_synonym jschar = "16 word"
type_synonym jsstring = "jschar list"

definition lit :: "string \<Rightarrow> jsstring" where
  "lit s = map of_char s"

text \<open>
  \<open>String.prototype.trim\<close> removes white space and line terminators (ECMAScript
  \<open>WhiteSpace\<close> and \<open>LineTerminator\<close>) from both ends.
\<close>

definition is_whitespace :: "jschar \<Rightarrow> bool" where
  "is_whitespace c = List.member
     [0x09, 0x0A, 0x0B, 0x0C, 0x0D, 0x20, 0xA0, 0x1680,
      0x2000, 0x2001, 0x2002, 0x2003, 0x2004, 0x2005, 0x2006, 0x2007, 0x2008, 0x2009, 0x200A,
      0x2028, 0x2029, 0x202F, 0x205F, 0x3000, 0xFEFF] (unat c)"

definition trimStart :: "jsstring \<Rightarrow> jsstring" where
  "trimStart s = dropWhile is_whitespace s"

definition trim :: "jsstring \<Rightarrow> jsstring" where
  "trim s = rev (dropWhile is_whitespace (rev (dropWhile is_whitespace s)))"

text \<open>
  The value a \<open>textarea\<close> reads back after an assignment: every pair of carriage return
  and line feed, and every other carriage return, has become a line feed.
\<close>

fun normalize_newlines :: "jsstring \<Rightarrow> jsstring" where
  "normalize_newlines [] = []"
| "normalize_newlines [c] = [if c = 0x0D then 0x0A else c]"
| "normalize_newlines (c # d # s) =
     (if c = 0x0D \<and> d = 0x0A then 0x0A # normalize_newlines s
      else if c = 0x0D then 0x0A # normalize_newlines (d # s)
      else c # normalize_newlines (d # s))"

text \<open>\<open>s.includes(p)\<close>: \<open>p\<close> occurs in \<open>s\<close> as a contiguous run.\<close>

fun str_includes :: "jsstring \<Rightarrow> jsstring \<Rightarrow> bool" where
  "str_includes [] p = (p = [])"
| "str_includes (c # s) p = (take (length p) (c # s) = p \<or> str_includes s p)"

text \<open>\<open>s.split(sep)\<close> for a separator of one code unit.\<close>

fun split :: "jschar \<Rightarrow> jsstring \<Rightarrow> jsstring list" where
  "split sep [] = [[]]"
| "split sep (c # s) =
     (if c = sep then [] # split sep s
      else (case split sep s of [] \<Rightarrow> [[c]] | p # ps \<Rightarrow> (c # p) # ps))"

subsection \<open>Numbers and their decimal form\<close>

text \<open>
  The numbers of the script are page numbers and record ids: they are modelled as
  unbounded integers (a double is exact up to \<open>2^53\<close>; fractions and the exponent
  form of very large numbers are out of the model). \<open>string_of_int\<close> is the
  conversion a template literal and \<open>textContent\<close> apply to such a number.
\<close>

definition digit_char :: "nat \<Rightarrow> jschar" where
  "digit_char d = of_nat (48 + d)"

fun digits :: "nat \<Rightarrow> jsstring" where
  "digits n = (if n < 10 then [digit_char n] else digits (n div 10) @ [digit_char (n mod 10)])"

declare digits.simps [simp del]

definition string_of_int :: "int \<Rightarrow> jsstring" where
  "string_of_int i = (if i < 0 then lit ''-'' @ digits (nat (- i)) else digits (nat i))"

text \<open>The code units \<open>0\<close> to \<open>9\<close>.\<close>

definition is_decimal :: "jschar \<Rightarrow> bool" where
  "is_decimal c = (48 \<le> unat c \<and> unat c \<le> 57)"

text \<open>
  \<open>parseInt(s)\<close> with no radix: leading white space is skipped, then an optional sign,
  then \<open>0x\<close> or \<open>0X\<close> selects radix 16, then the longest run of digits of the
  radix is read. No digit at all gives \<open>NaN\<close>, here \<open>None\<close>.
\<close>

definition digit_value :: "nat \<Rightarrow> jschar \<Rightarrow> nat option" where
  "digit_value radix c =
     (let u = unat c;
          v = (if 48 \<le> u \<and> u \<le> 57 then Some (u - 48)
               else if 97 \<le> u \<and> u \<le> 122 then Some (u - 87)
               else if 65 \<le> u \<and> u \<le> 90 then Some (u - 55)
               else None)
      in case v of None \<Rightarrow> None | Some d \<Rightarrow> if d < radix then Some d else None)"

fun read_digits :: "nat \<Rightarrow> nat \<Rightarrow> jsstring \<Rightarrow> nat" where
  "read_digits radix acc [] = acc"
| "read_digits radix acc (c # s) =
     (case digit_value radix c of
        None \<Rightarrow> acc
      | Some d \<Rightarrow> read_digits radix (acc * radix + d) s)"

definition parseInt :: "jsstring \<Rightarrow> int option" where
  "parseInt s =
     (let s0 = trimStart s;
          negative = (take 1 s0 = lit ''-'');
          s1 = (if take 1 s0 = lit ''-'' \<or> take 1 s0 = lit ''+'' then drop 1 s0 else s0);
          hex = (take 2 s1 = lit ''0x'' \<or> take 2 s1 = lit ''0X'');
          radix = (if hex then 16 else 10);
          s2 = (if hex then drop 2 s1 else s1)
      in case s2 of
           [] \<Rightarrow> None
         | c # _ \<Rightarrow>
             (case digit_value radix c of
                None \<Rightarrow> None
              | Some _ \<Rightarrow>
                  Some ((if negative then - 1 else 1) * int (read_digits radix 0 s2))))"

subsection \<open>Values\<close>

text \<open>
  The values that are not of one fixed type: \<open>currentLayerId\<close> (\<open>null\<close>, the
  string of a select element, or the id of a created layer), the body of a request, and the
  parsed body of the explanation endpoint. Numbers are integers, as above; the members of an
  object are listed with their names, which are distinct in a parsed body.
\<close>

datatype jsval =
    Undefined
  | Null
  | Bool bool
  | Num int
  | Str jsstring
  | Arr "jsval list"
  | Obj "(jsstring \<times> jsval) list"

text \<open>Truthiness, as \<open>if (v)\<close> and \<open>!v\<close> read it.\<close>

fun truthy :: "jsval \<Rightarrow> bool" where
  "truthy Undefined = False"
| "truthy Null = False"
| "truthy (Bool b) = b"
| "truthy (Num n) = (n \<noteq> 0)"
| "truthy (Str s) = (s \<noteq> [])"
| "truthy (Arr _) = True"
| "truthy (Obj _) = True"

fun join :: "jsstring \<Rightarrow> jsstring list \<Rightarrow> jsstring" where
  "join sep [] = []"
| "join sep [s] = s"
| "join sep (s # t # ss) = s @ sep @ join sep (t # ss)"

text \<open>
  The string a template literal \<open>`${v}`\<close> inserts, or \<open>None\<close> where the conversion
  throws a \<open>TypeError\<close>. An array is its elements joined by commas, \<open>null\<close> and
  \<open>undefined\<close> elements as the empty string. An object of a parsed body is converted
  by the \<open>toString\<close> of \<open>Object.prototype\<close> unless it has a member of that name:
  such a member is not callable, \<open>valueOf\<close> then gives no primitive value either, and
  the conversion throws.
\<close>

fun to_string :: "jsval \<Rightarrow> jsstring option" where
  "to_string Undefined = Some (lit ''undefined'')"
| "to_string Null = Some (lit ''null'')"
| "to_string (Bool b) = Some (if b then lit ''true'' else lit ''false'')"
| "to_string (Num n) = Some (string_of_int n)"
| "to_string (Str s) = Some s"
| "to_string (Arr vs) =
     map_option (join (lit '',''))
       (those (map (\<lambda>v. if v = Undefined \<or> v = Null then Some [] else to_string v) vs))"
| "to_string (Obj members) =
     (if map_of members (lit ''toString'') = None then Some (lit ''[object Object]'') else None)"

text \<open>
  \<open>data.explanation\<close>: reading a property of \<open>null\<close> or \<open>undefined\<close> throws a
  \<open>TypeError\<close> (\<open>None\<close>); an object gives the member of that name, and a value
  with no such member (a number, a string, a boolean, an array, an object without it) gives
  \<open>undefined\<close>.
\<close>

fun explanation :: "jsval \<Rightarrow> jsval option" where
  "explanation Undefined = None"
| "explanation Null = None"
| "explanation (Obj members) =
     Some (case map_of members (lit ''explanation'') of None \<Rightarrow> Undefined | Some v \<Rightarrow> v)"
| "explanation _ = Some Undefined"

subsection \<open>Elements\<close>

text \<open>
  An element has a tag, its attributes in the order they were set (\<open>className\<close> is
  the attribute \<open>class\<close>, \<open>id\<close> the attribute \<open>id\<close>, \<open>value\<close> and
  \<open>title\<close> likewise), the declarations of its inline style, its click handler and
  its children. The only click handler the script installs on a created element is the
  closure \<open>() => deleteAnnotation(annotation.id)\<close>.
\<close>

datatype action = DeleteAnnotation int

datatype node =
    Text jsstring
  | Element (tagName: jsstring) (attributes: "(jsstring \<times> jsstring) list")
      (styles: "(jsstring \<times> jsstring) list") (onclick: "action option")
      (childNodes: "node list")

definition getAttribute :: "jsstring \<Rightarrow> node \<Rightarrow> jsstring option" where
  "getAttribute name n = (case n of Text _ \<Rightarrow> None | Element _ attrs _ _ _ \<Rightarrow> map_of attrs name)"

text \<open>The class names of an element: its \<open>class\<close> attribute split at ASCII white space.\<close>

definition is_ascii_whitespace :: "jschar \<Rightarrow> bool" where
  "is_ascii_whitespace c = List.member [0x09, 0x0A, 0x0C, 0x0D, 0x20] (unat c)"

fun tokens :: "jsstring \<Rightarrow> jsstring \<Rightarrow> jsstring list" where
  "tokens cur [] = (if cur = [] then [] else [cur])"
| "tokens cur (c # s) =
     (if is_ascii_whitespace c then (if cur = [] then [] else [cur]) @ tokens [] s
      else tokens (cur @ [c]) s)"

definition classList :: "node \<Rightarrow> jsstring list" where
  "classList n = (case getAttribute (lit ''class'') n of None \<Rightarrow> [] | Some c \<Rightarrow> tokens [] c)"

text \<open>
  The selector \<open>.annotation-card[data-id="<id>"]\<close> of \<open>deleteAnnotation\<close>: an
  element of class \<open>annotation-card\<close> whose attribute \<open>data-id\<close> is the decimal
  form of the id.
\<close>

definition matches_card :: "int \<Rightarrow> node \<Rightarrow> bool" where
  "matches_card annotationId n =
     (List.member (classList n) (lit ''annotation-card'')
      \<and> getAttribute (lit ''data-id'') n = Some (string_of_int annotationId))"

text \<open>
  \<open>querySelector\<close> followed by \<open>remove\<close>: the first element in document order
  (an element before its children, children before the next sibling) that matches is taken
  out of the tree; \<open>None\<close> when no element matches.
\<close>

fun remove_first :: "(node \<Rightarrow> bool) \<Rightarrow> node list \<Rightarrow> node list option" where
  "remove_first P [] = None"
| "remove_first P (Text t # ns) = map_option ((#) (Text t)) (remove_first P ns)"
| "remove_first P (Element t a st h cs # ns) =
     (if P (Element t a st h cs) then Some ns
      else (case remove_first P cs of
              Some cs' \<Rightarrow> Some (Element t a st h cs' # ns)
            | None \<Rightarrow> map_option ((#) (Element t a st h cs)) (remove_first P ns)))"

text \<open>\<open>document.getElementById\<close> over a list of trees.\<close>

fun getElementById :: "jsstring \<Rightarrow> node list \<Rightarrow> node option" where
  "getElementById i [] = None"
| "getElementById i (Text t # ns) = getElementById i ns"
| "getElementById i (Element t a st h cs # ns) =
     (if map_of a (lit ''id'') = Some i then Some (Element t a st h cs)
      else (case getElementById i cs of
              Some e \<Rightarrow> Some e
            | None \<Rightarrow> getElementById i ns))"

subsection \<open>The backend and the PDF library\<close>

text \<open>
  The records of the backend, with the members the script reads. The records of a parsed
  body are taken to have the members of the endpoint; the body of the explanation endpoint
  is an arbitrary value, since the script reads it whatever the status of the response.
\<close>

record layer =
  layer_id :: int
  layer_name :: jsstring
  creator_name :: jsstring

record annotation =
  annotation_id :: int
  content :: jsstring
  author_id :: int
  author_name :: jsstring
  highlighted_text :: "jsstring option"
  position_data :: "jsstring option"

record usergroup =
  group_id :: int
  group_name :: jsstring

text \<open>
  What \<open>await fetch(...)\<close> and \<open>await response.json()\<close> give: the fetch rejects, or
  it resolves to a response with its \<open>ok\<close> flag, whose body parses as JSON or not.
\<close>

datatype 'a body = NotJson | Json 'a

text \<open>
  The parsed body of an endpoint that lists records: the array of the records, or a value
  that is not an array (\<open>null\<close>, a boolean, a number, a string or an object).
\<close>

datatype non_array =
    NullValue
  | BoolValue bool
  | NumValue int
  | StrValue jsstring
  | ObjValue "(jsstring \<times> jsval) list"

datatype 'a listing = NotArray non_array | Array "'a list"

text \<open>
  \<open>v.length === 0\<close> for a value that is not an array: the empty string, and an object
  whose member \<open>length\<close> is 0. (On \<open>null\<close> the read throws.)
\<close>

definition length_is_zero :: "non_array \<Rightarrow> bool" where
  "length_is_zero v =
     (case v of
        StrValue s \<Rightarrow> s = []
      | ObjValue members \<Rightarrow> map_of members (lit ''length'') = Some (Num 0)
      | _ \<Rightarrow> False)"

datatype 'a response = Rejected | Response (ok: bool) (parsed: "'a body")

text \<open>
  A request as the script issues it. The payload is the value \<open>JSON.stringify\<close>
  writes; it writes \<open>NaN\<close> as \<open>null\<close>.
\<close>

datatype request =
  Request (http_method: jsstring) (url: jsstring) (headers: "(jsstring \<times> jsstring) list")
    (payload: "jsval option")

definition GET :: "jsstring \<Rightarrow> request" where
  "GET u = Request (lit ''GET'') u [] None"

definition POST :: "jsstring \<Rightarrow> request" where
  "POST u = Request (lit ''POST'') u [] None"

definition POST_json :: "jsstring \<Rightarrow> jsval \<Rightarrow> request" where
  "POST_json u v =
     Request (lit ''POST'') u [(lit ''Content-Type'', lit ''application/json'')] (Some v)"

text \<open>
  A loaded document: its page count and, for each page number, how far rendering that
  page gets before one of the awaited calls of the library fails. A failure of
  \<open>renderTextLayer\<close>, the last call, leaves the same elements as no failure.
\<close>

datatype page_outcome = GetPageFails | RenderFails | GetTextContentFails | PageDrawn

record pdf_document =
  numPages :: int
  page_outcome :: "int \<Rightarrow> page_outcome"

text \<open>
  An entry of the intersection observer: whether the target counts as intersecting, the
  share of the target that is visible in the root, and the target, named by its \<open>id\<close>.
\<close>

record entry =
  isIntersecting :: bool
  intersectionRatio :: rat
  target_id :: jsstring

text \<open>The options \<open>pageObserver\<close> is created with.\<close>

record observer_options =
  root_id :: jsstring
  threshold :: rat

definition pageObserver_options :: observer_options where
  "pageObserver_options = \<lparr>root_id = lit ''pdf-viewer-area'', threshold = 1 / 2\<rparr>"

subsection \<open>The state\<close>

record state =
  EBOOK_ID :: int
  CURRENT_USER_ID :: int
  pdfDoc :: "pdf_document option"
  currentPageNum :: int
  totalPages :: int
  currentLayerId :: jsval
  currentHighlightedText :: jsstring
  viewerContainer :: "node list"
  pageNumDisplay :: jsstring
  pageCountDisplay :: jsstring
  layerSelect :: "node list"
  layerSelect_value :: jsstring
  annotationList :: "node list"
  annotationTextarea :: jsstring
  createLayerModal_display :: jsstring
  newLayerNameInput :: jsstring
  newLayerGroupSelect :: "node list"
  newLayerGroupSelect_value :: jsstring
  askAiBtn_textContent :: jsstring
  askAiBtn_disabled :: bool
  askAiBtn_animation :: jsstring
  observed :: "jsstring list"
  mouseup_listeners :: nat
  scrolled_to :: "jsstring option"
  alerts :: "jsstring list"
  requests :: "request list"

text \<open>
  \<open>EBOOK_ID\<close> and \<open>CURRENT_USER_ID\<close> are the identifiers the hosting page provides,
  numbers as the ids of the backend are.
  \<open>viewerContainer\<close>, \<open>layerSelect\<close>, \<open>annotationList\<close> and
  \<open>newLayerGroupSelect\<close> hold the children of those elements; \<open>pageNumDisplay\<close>,
  \<open>pageCountDisplay\<close> and \<open>askAiBtn_textContent\<close> the text of those elements;
  \<open>annotationTextarea\<close>, \<open>newLayerNameInput\<close> and the two \<open>_value\<close> fields the
  value those controls read back. \<open>observed\<close> lists the ids of the elements
  \<open>pageObserver\<close> observes, \<open>mouseup_listeners\<close> counts the listeners on the
  viewer area, \<open>scrolled_to\<close> is the last target of \<open>scrollIntoView\<close>,
  \<open>alerts\<close> and \<open>requests\<close> log the calls of \<open>alert\<close> and \<open>fetch\<close>.
\<close>

definition alert :: "jsstring \<Rightarrow> state \<Rightarrow> state" where
  "alert msg s = s\<lparr>alerts := alerts s @ [msg]\<rparr>"

definition fetch :: "request \<Rightarrow> state \<Rightarrow> state" where
  "fetch r s = s\<lparr>requests := requests s @ [r]\<rparr>"

text \<open>The variable declarations at the top of the handler.\<close>

definition declare_variables :: "state \<Rightarrow> state" where
  "declare_variables s =
     s\<lparr>pdfDoc := None, currentPageNum := 1, totalPages := 0, currentLayerId := Null,
       currentHighlightedText := []\<rparr>"

subsection \<open>The scroll observer\<close>

text \<open>
  \<open>parseInt(pageId.split('-')[2])\<close>: an id with fewer than three parts gives
  \<open>parseInt(undefined)\<close>, which is \<open>NaN\<close>.
\<close>

definition page_of_id :: "jsstring \<Rightarrow> int option" where
  "page_of_id pageId =
     (let parts = split 0x2D pageId
      in if 2 < length parts then parseInt (parts ! 2) else None)"

text \<open>The body of \<open>entries.forEach\<close>; \<open>if (pageNum)\<close> lets neither \<open>NaN\<close> nor 0 pass.\<close>

definition observe_entry :: "entry \<Rightarrow> state \<Rightarrow> state" where
  "observe_entry e s =
     (if isIntersecting e then
        (case page_of_id (target_id e) of
           None \<Rightarrow> s
         | Some pageNum \<Rightarrow>
             if pageNum \<noteq> 0
             then s\<lparr>currentPageNum := pageNum, pageNumDisplay := string_of_int pageNum\<rparr>
             else s)
      else s)"

definition pageObserver_callback :: "entry list \<Rightarrow> state \<Rightarrow> state" where
  "pageObserver_callback entries s = fold observe_entry entries s"

subsection \<open>Loading and rendering the document\<close>

definition page_wrapper_id :: "int \<Rightarrow> jsstring" where
  "page_wrapper_id pageNum = lit ''page-wrapper-'' @ string_of_int pageNum"

text \<open>
  The body of the loop of \<open>renderAllPages\<close>. A failure of \<open>getPage\<close> (or a missing
  document) leaves no trace; from then on the wrapper with its canvas is in the viewer and
  observed, and the text layer is appended once \<open>render\<close> and \<open>getTextContent\<close>
  have succeeded.
\<close>

definition renderPage :: "int \<Rightarrow> state \<Rightarrow> state" where
  "renderPage pageNum s =
     (case pdfDoc s of
        None \<Rightarrow> s
      | Some doc \<Rightarrow>
          (case page_outcome doc pageNum of
             GetPageFails \<Rightarrow> s
           | outcome \<Rightarrow>
               (let canvas = Element (lit ''canvas'') [(lit ''class'', lit ''pdf-page-canvas'')] [] None [];
                    textLayerDiv = Element (lit ''div'') [(lit ''class'', lit ''textLayer'')] [] None [];
                    pageWrapper =
                      Element (lit ''div'')
                        [(lit ''class'', lit ''pdf-page-wrapper''), (lit ''id'', page_wrapper_id pageNum)]
                        [(lit ''position'', lit ''relative'')] None
                        (if outcome = RenderFails \<or> outcome = GetTextContentFails
                         then [canvas] else [canvas, textLayerDiv])
                in s\<lparr>viewerContainer := viewerContainer s @ [pageWrapper],
                     observed := observed s @ [page_wrapper_id pageNum]\<rparr>)))"

function renderPages :: "int \<Rightarrow> state \<Rightarrow> state" where
  "renderPages pageNum s =
     (if pageNum \<le> totalPages s then renderPages (pageNum + 1) (renderPage pageNum s) else s)"
  by pat_completeness auto

lemma totalPages_renderPage [simp]: "totalPages (renderPage pageNum s) = totalPages s"
  by (simp add: renderPage_def Let_def split: option.splits page_outcome.splits)

termination renderPages
  by (relation "measure (\<lambda>(pageNum, s). nat (totalPages s + 1 - pageNum))") auto

declare renderPages.simps [simp del]

definition renderAllPages :: "state \<Rightarrow> state" where
  "renderAllPages s = renderPages 1 (s\<lparr>viewerContainer := [], observed := []\<rparr>)"

definition setupTextSelection :: "state \<Rightarrow> state" where
  "setupTextSelection s = s\<lparr>mouseup_listeners := Suc (mouseup_listeners s)\<rparr>"

text \<open>The listener of \<open>setupTextSelection\<close>, given the text of the selection.\<close>

definition mouseup_listener :: "jsstring \<Rightarrow> state \<Rightarrow> state" where
  "mouseup_listener selection s =
     (let selectedText = trim selection
      in if 0 < length selectedText then s\<lparr>currentHighlightedText := selectedText\<rparr> else s)"

text \<open>\<open>loadPdf\<close>, given the document the library loads (\<open>None\<close>: loading fails).\<close>

definition loadPdf :: "pdf_document option \<Rightarrow> state \<Rightarrow> state" where
  "loadPdf loaded s =
     (case loaded of
        None \<Rightarrow> alert (lit ''Could not load PDF file.'') s
      | Some doc \<Rightarrow>
          setupTextSelection
            (renderAllPages
               (s\<lparr>pdfDoc := Some doc, totalPages := numPages doc,
                  pageCountDisplay := string_of_int (numPages doc)\<rparr>)))"

subsection \<open>Layers and annotations\<close>

definition option_node :: "(jsstring \<times> jsstring) list \<Rightarrow> jsstring \<Rightarrow> node" where
  "option_node attrs label = Element (lit ''option'') attrs [] None [Text label]"

definition paragraph_node :: "(jsstring \<times> jsstring) list \<Rightarrow> jsstring \<Rightarrow> node" where
  "paragraph_node style label = Element (lit ''p'') [] style None [Text label]"

definition text_nodes :: "jsstring \<Rightarrow> node list" where
  "text_nodes t = (if t = [] then [] else [Text t])"

definition layer_option :: "layer \<Rightarrow> node" where
  "layer_option l =
     Element (lit ''option'') [(lit ''value'', string_of_int (layer_id l))] [] None
       (text_nodes (layer_name l @ lit '' (by '' @ creator_name l @ lit '')''))"

text \<open>
  \<open>fetchLayers\<close>, given the answer to the request. On a body that is not an array,
  \<open>forEach\<close> throws after the placeholders have been written.
\<close>

definition fetchLayers :: "layer listing response \<Rightarrow> state \<Rightarrow> state" where
  "fetchLayers resp s =
     (let s1 = fetch (GET (lit ''/api/book/'' @ string_of_int (EBOOK_ID s) @ lit ''/layers'')) s;
          placeholder =
            option_node [(lit ''value'', []), (lit ''disabled'', []), (lit ''selected'', [])]
              (lit ''-- Select Journal / Group --'');
          no_journals =
            option_node [(lit ''value'', []), (lit ''disabled'', [])] (lit ''No journals yet'')
      in case resp of
           Rejected \<Rightarrow> s1
         | Response _ NotJson \<Rightarrow> s1
         | Response _ (Json (NotArray v)) \<Rightarrow>
             s1\<lparr>layerSelect := placeholder # (if length_is_zero v then [no_journals] else []),
                 layerSelect_value := []\<rparr>
         | Response _ (Json (Array layers)) \<Rightarrow>
             s1\<lparr>layerSelect :=
                   placeholder # (if length layers = 0 then [no_journals] else [])
                   @ map layer_option layers,
                 layerSelect_value := []\<rparr>)"

definition grey_centered :: "(jsstring \<times> jsstring) list" where
  "grey_centered =
     [(lit ''color'', lit ''#6b7280''), (lit ''text-align'', lit ''center''),
      (lit ''margin-top'', lit ''2rem'')]"

definition is_set :: "jsstring option \<Rightarrow> bool" where
  "is_set v = (case v of None \<Rightarrow> False | Some t \<Rightarrow> t \<noteq> [])"

text \<open>
  The elements \<open>renderAnnotations\<close> creates for one annotation: the delete button
  (only on the annotations of the current user), the author line, the content, the
  location line and the quote, and the card that holds them.
\<close>

definition deleteBtn :: "annotation \<Rightarrow> node" where
  "deleteBtn a =
     Element (lit ''button'') [(lit ''title'', lit ''Delete Note'')]
       [(lit ''float'', lit ''right''), (lit ''font-size'', lit ''0.9rem''),
        (lit ''color'', lit ''#e53e3e''), (lit ''background'', lit ''none''),
        (lit ''border'', lit ''none''), (lit ''cursor'', lit ''pointer'')]
       (Some (DeleteAnnotation (annotation_id a)))
       [Text [0xF0, 0x178, 0x2014, 0x2018, 0xEF, 0xB8]]"

definition author_div :: "int \<Rightarrow> annotation \<Rightarrow> node" where
  "author_div current_user a =
     Element (lit ''div'') [(lit ''class'', lit ''annotation-author'')] [] None
       (text_nodes (author_name a) @ (if author_id a = current_user then [deleteBtn a] else []))"

definition content_p :: "annotation \<Rightarrow> node" where
  "content_p a =
     Element (lit ''p'') [(lit ''class'', lit ''annotation-content'')]
       (if str_includes (content a) (lit ''[AI]:'')
        then [(lit ''white-space'', lit ''pre-wrap'')] else [])
       None (text_nodes (content a))"

definition pageSpan :: "annotation \<Rightarrow> node" where
  "pageSpan a =
     Element (lit ''span'') []
       [(lit ''display'', lit ''block''), (lit ''margin-top'', lit ''5px''),
        (lit ''font-size'', lit ''0.75rem''), (lit ''color'', lit ''#a0aec0'')]
       None
       (text_nodes (lit ''(Location: '' @ (case position_data a of None \<Rightarrow> [] | Some d \<Rightarrow> d)
                    @ lit '')''))"

definition quote :: "annotation \<Rightarrow> node" where
  "quote a =
     Element (lit ''blockquote'') [(lit ''class'', lit ''annotation-highlight'')] [] None
       (text_nodes (case highlighted_text a of None \<Rightarrow> [] | Some h \<Rightarrow> h)
        @ (if is_set (position_data a) then [pageSpan a] else []))"

definition annotation_card :: "int \<Rightarrow> annotation \<Rightarrow> node" where
  "annotation_card current_user a =
     Element (lit ''div'') [(lit ''class'', lit ''annotation-card'')] [] None
       ([author_div current_user a, content_p a]
        @ (if is_set (highlighted_text a) then [quote a] else []))"

definition renderAnnotations :: "annotation list \<Rightarrow> state \<Rightarrow> state" where
  "renderAnnotations annotations s =
     (if length annotations = 0
      then s\<lparr>annotationList :=
               [paragraph_node grey_centered (lit ''No notes yet. Start writing below!'')]\<rparr>
      else s\<lparr>annotationList := map (annotation_card (CURRENT_USER_ID s)) annotations\<rparr>)"

text \<open>
  \<open>renderAnnotations\<close> on any parsed body, as \<open>fetchAnnotations\<close> calls it inside
  its \<open>try\<close>: on a value that is not an array the list has been emptied when
  \<open>forEach\<close> (or, on \<open>null\<close>, the read of \<open>length\<close>) throws.
\<close>

definition renderAnnotations_body :: "annotation listing \<Rightarrow> state \<Rightarrow> state" where
  "renderAnnotations_body parsed_body s =
     (case parsed_body of
        Array annotations \<Rightarrow> renderAnnotations annotations s
      | NotArray v \<Rightarrow>
          s\<lparr>annotationList :=
              (if length_is_zero v
               then [paragraph_node grey_centered (lit ''No notes yet. Start writing below!'')]
               else [])\<rparr>)"

text \<open>
  \<open>fetchAnnotations\<close> up to its first \<open>await\<close>: the guard, the assignment to
  \<open>currentLayerId\<close>, the loading placeholder and the request. The address of the
  request is built inside the \<open>try\<close>: where the layer id has no string form no
  request is issued. The flag says whether a request is pending.
\<close>

definition fetchAnnotations_sync :: "jsval \<Rightarrow> state \<Rightarrow> state \<times> bool" where
  "fetchAnnotations_sync layerId s =
     (if \<not> truthy layerId
      then (s\<lparr>annotationList :=
                [paragraph_node grey_centered (lit ''Select a journal layer above.'')]\<rparr>, False)
      else
        (let s1 = s\<lparr>currentLayerId := layerId,
                    annotationList :=
                      [paragraph_node
                         [(lit ''text-align'', lit ''center''), (lit ''margin-top'', lit ''2rem'')]
                         (lit ''Loading...'')]\<rparr>
         in case to_string layerId of
              None \<Rightarrow> (s1, False)
            | Some layer \<Rightarrow>
                (fetch (GET (lit ''/api/layer/'' @ layer @ lit ''/annotations'')) s1, True)))"

text \<open>\<open>fetchAnnotations\<close> after the answer has arrived.\<close>

definition fetchAnnotations_resume :: "annotation listing response \<Rightarrow> state \<Rightarrow> state" where
  "fetchAnnotations_resume resp s =
     (case resp of
        Rejected \<Rightarrow> s
      | Response _ NotJson \<Rightarrow> s
      | Response _ (Json parsed_body) \<Rightarrow> renderAnnotations_body parsed_body s)"

definition fetchAnnotations :: "jsval \<Rightarrow> annotation listing response \<Rightarrow> state \<Rightarrow> state" where
  "fetchAnnotations layerId resp s =
     (case fetchAnnotations_sync layerId s of
        (s1, pending) \<Rightarrow> if pending then fetchAnnotations_resume resp s1 else s1)"

text \<open>
  \<open>saveAnnotation\<close>, given the answer to the create request and the answer to the list
  request that follows a success. The call of \<open>fetchAnnotations\<close> is not awaited: its
  first part runs, then the two assignments, then its second part.
\<close>

definition saveAnnotation ::
  "'a response \<Rightarrow> annotation listing response \<Rightarrow> state \<Rightarrow> state" where
  "saveAnnotation created listed s =
     (let content = trim (annotationTextarea s)
      in if content = [] then alert (lit ''Please write a note.'') s
         else if \<not> truthy (currentLayerId s) then alert (lit ''Please select a journal layer.'') s
         else
           (let highlightedText = currentHighlightedText s;
                positionData = lit ''Page '' @ string_of_int (currentPageNum s);
                s1 = fetch (POST_json (lit ''/api/annotation/new'')
                        (Obj [(lit ''content'', Str content),
                              (lit ''layer_id'', currentLayerId s),
                              (lit ''highlighted_text'', Str highlightedText),
                              (lit ''position_data'', Str positionData)])) s
            in case created of
                 Response True _ \<Rightarrow>
                   (case fetchAnnotations_sync (currentLayerId s1) s1 of
                      (s2, pending) \<Rightarrow>
                        (let s3 = s2\<lparr>annotationTextarea := normalize_newlines [],
                                   currentHighlightedText := []\<rparr>
                         in if pending then fetchAnnotations_resume listed s3 else s3))
               | _ \<Rightarrow> alert (lit ''Error saving note.'') s1))"

text \<open>
  \<open>deleteAnnotation\<close>, given the answer to the \<open>confirm\<close> dialog and the answer to
  the request. A rejected fetch ends the function at the \<open>await\<close>. The cards are the
  only elements of class \<open>annotation-card\<close> the script creates, all of them children
  of the annotation list, so the selector is looked up there.
\<close>

definition deleteAnnotation :: "int \<Rightarrow> bool \<Rightarrow> 'a response \<Rightarrow> state \<Rightarrow> state" where
  "deleteAnnotation annotationId confirmed resp s =
     (if \<not> confirmed then s
      else
        (let s1 = fetch (POST (lit ''/api/annotation/'' @ string_of_int annotationId @ lit ''/delete'')) s
         in case resp of
              Rejected \<Rightarrow> s1
            | Response _ _ \<Rightarrow>
                (case remove_first (matches_card annotationId) (annotationList s1) of
                   None \<Rightarrow> s1
                 | Some remaining \<Rightarrow> s1\<lparr>annotationList := remaining\<rparr>)))"

subsection \<open>The dialog that creates a layer\<close>

definition group_option :: "usergroup \<Rightarrow> node" where
  "group_option g =
     Element (lit ''option'') [(lit ''value'', string_of_int (group_id g))] [] None
       (text_nodes ([0xF0, 0x178, 0x2018, 0xA5] @ lit '' Group: '' @ group_name g))"

text \<open>
  \<open>openCreateLayerModal\<close> up to its \<open>await\<close>: the dialog is shown with the name
  emptied and one option, of the empty value, in the scope select, and the groups request
  is issued. Assigning \<open>innerHTML\<close> leaves the first option selected, so the value of
  the select is the value of that option.
\<close>

definition openCreateLayerModal_sync :: "state \<Rightarrow> state" where
  "openCreateLayerModal_sync s =
     fetch (GET (lit ''/api/user/groups''))
       (s\<lparr>newLayerNameInput := [],
          newLayerGroupSelect := [option_node [(lit ''value'', [])] (lit ''Loading groups...'')],
          newLayerGroupSelect_value := [],
          createLayerModal_display := lit ''flex''\<rparr>)"

text \<open>
  \<open>openCreateLayerModal\<close> after the answer to the groups request has arrived. On a body
  that is not an array \<open>forEach\<close> throws after the first option has been written.
\<close>

definition openCreateLayerModal_resume :: "usergroup listing response \<Rightarrow> state \<Rightarrow> state" where
  "openCreateLayerModal_resume resp s =
     (let private_option =
            option_node [(lit ''value'', lit ''0'')]
              ([0xF0, 0x178, 0x201D, 0x2019] @ lit '' Private / Public (Everyone)'');
          failed = (\<lambda>s'. (alert (lit ''Error loading groups.'') s')\<lparr>createLayerModal_display := lit ''none''\<rparr>)
      in case resp of
           Response True (Json (Array userGroups)) \<Rightarrow>
             s\<lparr>newLayerGroupSelect := private_option # map group_option userGroups,
               newLayerGroupSelect_value := lit ''0''\<rparr>
         | Response True (Json (NotArray v)) \<Rightarrow>
             failed (s\<lparr>newLayerGroupSelect := [private_option],
                       newLayerGroupSelect_value := lit ''0''\<rparr>)
         | _ \<Rightarrow> failed s)"

definition openCreateLayerModal :: "usergroup listing response \<Rightarrow> state \<Rightarrow> state" where
  "openCreateLayerModal resp s = openCreateLayerModal_resume resp (openCreateLayerModal_sync s)"

text \<open>
  Assigning \<open>select.value\<close>: the option of that value becomes the selected one; with no
  such option none is selected and the value reads as the empty string.
\<close>

definition select_value :: "node list \<Rightarrow> jsstring \<Rightarrow> jsstring" where
  "select_value options v =
     (if list_ex (\<lambda>n. getAttribute (lit ''value'') n = Some v) options then v else [])"

text \<open>The payload member \<open>study_group_id\<close> for the value of the scope select.\<close>

definition studyGroupId :: "jsstring \<Rightarrow> jsval" where
  "studyGroupId groupIdVal =
     (if groupIdVal = lit ''0'' then Null
      else (case parseInt groupIdVal of None \<Rightarrow> Null | Some n \<Rightarrow> Num n))"

text \<open>
  \<open>confirmLayerBtn.onclick\<close>, given the answers to the create request, to the layers
  request of \<open>fetchLayers\<close> and to the annotations request of \<open>fetchAnnotations\<close>.
\<close>

definition confirmLayerBtn_onclick ::
  "layer response \<Rightarrow> layer listing response \<Rightarrow> annotation listing response \<Rightarrow> state \<Rightarrow> state" where
  "confirmLayerBtn_onclick created layers listed s =
     (let layerName = trim (newLayerNameInput s);
          groupIdVal = newLayerGroupSelect_value s
      in if layerName = [] then alert (lit ''Please enter a name.'') s
         else
           (let s1 = fetch (POST_json (lit ''/api/layer/new'')
                        (Obj [(lit ''name'', Str layerName),
                              (lit ''ebook_id'', Num (EBOOK_ID s)),
                              (lit ''study_group_id'', studyGroupId groupIdVal)])) s
            in case created of
                 Response True parsed_body \<Rightarrow>
                   (let s2 = fetchLayers layers (s1\<lparr>createLayerModal_display := lit ''none''\<rparr>)
                    in case parsed_body of
                         NotJson \<Rightarrow> alert (lit ''Error creating layer.'') s2
                       | Json newLayer \<Rightarrow>
                           fetchAnnotations (Num (layer_id newLayer)) listed
                             (s2\<lparr>layerSelect_value :=
                                   select_value (layerSelect s2) (string_of_int (layer_id newLayer))\<rparr>))
               | _ \<Rightarrow> alert (lit ''Error creating layer.'') s1))"

definition cancelLayerBtn_onclick :: "state \<Rightarrow> state" where
  "cancelLayerBtn_onclick s = s\<lparr>createLayerModal_display := lit ''none''\<rparr>"

subsection \<open>Asking for an explanation\<close>

text \<open>
  \<open>askAiToExplain\<close>, given the answer to the request. The status of the response is
  not read. \<open>originalText\<close> is read and not used again. Reading \<open>data.explanation\<close>
  and converting it in the template literal can each throw into the \<open>catch\<close> block;
  the textarea reads the assigned text back with its newlines normalised. The
  \<open>finally\<close> block is the last update.
\<close>

definition ask_ai_label :: jsstring where
  "ask_ai_label = [0xE2, 0x153, 0xA8] @ lit '' Ask AI''"

definition askAiToExplain :: "jsval response \<Rightarrow> state \<Rightarrow> state" where
  "askAiToExplain resp s =
     (let userThought = trim (annotationTextarea s)
      in if userThought = []
         then alert (lit ''Please write a question or thought in the box first.'') s
         else
           (let originalText = askAiBtn_textContent s;
                s1 = fetch (POST_json (lit ''/api/ai/explain'')
                        (Obj [(lit ''text'', Str userThought), (lit ''ebook_id'', Num (EBOOK_ID s))]))
                      (s\<lparr>askAiBtn_textContent := lit ''Thinking...'', askAiBtn_disabled := True\<rparr>);
                failed = alert (lit ''AI could not respond.'') s1;
                s2 = (case resp of
                        Rejected \<Rightarrow> failed
                      | Response _ NotJson \<Rightarrow> failed
                      | Response _ (Json data) \<Rightarrow>
                          (case explanation data of
                             None \<Rightarrow> failed
                           | Some e \<Rightarrow>
                               (case to_string e of
                                  None \<Rightarrow> failed
                                | Some answer \<Rightarrow>
                                    s1\<lparr>annotationTextarea :=
                                          normalize_newlines
                                            (annotationTextarea s1 @ [0x0A, 0x0A] @ lit ''[AI]: ''
                                             @ answer @ [0x0A])\<rparr>)))
            in s2\<lparr>askAiBtn_textContent := ask_ai_label, askAiBtn_disabled := False,
                  askAiBtn_animation := lit ''none''\<rparr>))"

subsection \<open>Events\<close>

text \<open>
  What can happen after the handler has run, with what the environment contributes to each
  event: the observer reports entries, the user releases the pointer over the viewer with
  some text selected, picks a layer, edits one of the inputs or clicks one of the buttons.
\<close>

datatype event =
    Intersection "entry list"
  | MouseUp jsstring
  | ChangeLayer jsstring "annotation listing response"
  | EditNote jsstring
  | ClickSave "jsval response" "annotation listing response"
  | ClickDelete int bool "jsval response"
  | ClickAddLayer "usergroup listing response"
  | EditLayerName jsstring
  | ChooseGroup jsstring
  | ClickConfirmLayer "layer response" "layer listing response" "annotation listing response"
  | ClickCancelLayer
  | ClickModal bool
  | ClickAskAi "jsval response"
  | ClickPrevPage
  | ClickNextPage

text \<open>The two navigation buttons scroll to the neighbouring wrapper when there is one.\<close>

definition scroll_to_page :: "int \<Rightarrow> state \<Rightarrow> state" where
  "scroll_to_page pageNum s =
     (case getElementById (page_wrapper_id pageNum) (viewerContainer s) of
        None \<Rightarrow> s
      | Some _ \<Rightarrow> s\<lparr>scrolled_to := Some (page_wrapper_id pageNum)\<rparr>)"

fun step :: "event \<Rightarrow> state \<Rightarrow> state" where
  "step (Intersection entries) s = pageObserver_callback entries s"
| "step (MouseUp selection) s = ((mouseup_listener selection) ^^ (mouseup_listeners s)) s"
| "step (ChangeLayer v listed) s = fetchAnnotations (Str v) listed (s\<lparr>layerSelect_value := v\<rparr>)"
| "step (EditNote t) s = s\<lparr>annotationTextarea := normalize_newlines t\<rparr>"
| "step (ClickSave created listed) s = saveAnnotation created listed s"
| "step (ClickDelete annotationId confirmed resp) s = deleteAnnotation annotationId confirmed resp s"
| "step (ClickAddLayer resp) s = openCreateLayerModal resp s"
| "step (EditLayerName t) s = s\<lparr>newLayerNameInput := t\<rparr>"
| "step (ChooseGroup v) s = s\<lparr>newLayerGroupSelect_value := v\<rparr>"
| "step (ClickConfirmLayer created layers listed) s = confirmLayerBtn_onclick created layers listed s"
| "step ClickCancelLayer s = cancelLayerBtn_onclick s"
| "step (ClickModal on_backdrop) s =
     (if on_backdrop then s\<lparr>createLayerModal_display := lit ''none''\<rparr> else s)"
| "step (ClickAskAi resp) s = (if askAiBtn_disabled s then s else askAiToExplain resp s)"
| "step ClickPrevPage s = scroll_to_page (currentPageNum s - 1) s"
| "step ClickNextPage s = scroll_to_page (currentPageNum s + 1) s"

definition run :: "event list \<Rightarrow> state \<Rightarrow> state" where
  "run events s = fold step events s"

text \<open>
  The handler itself: the declarations, then \<open>fetchLayers()\<close> and \<open>loadPdf(PDF_URL)\<close>,
  on the state of the hosting page.
\<close>

definition startup :: "layer listing response \<Rightarrow> pdf_document option \<Rightarrow> state \<Rightarrow> state" where
  "startup layers loaded page = loadPdf loaded (fetchLayers layers (declare_variables page))"

text \<open>
  What the observer keeps to: it reports entries only for elements it observes, and an
  entry counts as intersecting exactly when the visible share of its target has reached
  the threshold the observer was created with (``trigger when 50% of the page is
  visible'', as the source puts it).
\<close>

definition reported :: "state \<Rightarrow> event \<Rightarrow> bool" where
  "reported s e =
     (case e of
        Intersection entries \<Rightarrow>
          list_all
            (\<lambda>x. List.member (observed s) (target_id x)
                 \<and> isIntersecting x = (threshold pageObserver_options \<le> intersectionRatio x))
            entries
      | _ \<Rightarrow> True)"

fun reported_run :: "state \<Rightarrow> event list \<Rightarrow> bool" where
  "reported_run s [] = True"
| "reported_run s (e # es) = (reported s e \<and> reported_run (step e s) es)"

text \<open>
  The layer an event requests the annotations of: the argument of its call of
  \<open>fetchAnnotations\<close>, when the event makes one and the argument is truthy.
\<close>

fun requested :: "event \<Rightarrow> state \<Rightarrow> jsval option" where
  "requested (ChangeLayer v listed) s = (if v \<noteq> [] then Some (Str v) else None)"
| "requested (ClickSave created listed) s =
     (if trim (annotationTextarea s) \<noteq> [] \<and> truthy (currentLayerId s)
         \<and> (case created of Response True _ \<Rightarrow> True | _ \<Rightarrow> False)
      then Some (currentLayerId s) else None)"
| "requested (ClickConfirmLayer created layers listed) s =
     (case created of
        Response True (Json newLayer) \<Rightarrow>
          if trim (newLayerNameInput s) \<noteq> [] \<and> layer_id newLayer \<noteq> 0
          then Some (Num (layer_id newLayer)) else None
      | _ \<Rightarrow> None)"
| "requested _ s = None"

text \<open>The layers requested over a sequence of events, oldest first.\<close>

fun requested_layers :: "event list \<Rightarrow> state \<Rightarrow> jsval list" where
  "requested_layers [] s = []"
| "requested_layers (e # es) s =
     (case requested e s of None \<Rightarrow> [] | Some l \<Rightarrow> [l]) @ requested_layers es (step e s)"

text \<open>
  The requests of the log that ask for the annotations of a layer, and the request a call
  of \<open>fetchAnnotations\<close> with a truthy layer id issues (none when the id has no string
  form).
\<close>

definition is_list_request :: "request \<Rightarrow> bool" where
  "is_list_request r \<longleftrightarrow> http_method r = lit ''GET'' \<and> take 11 (url r) = lit ''/api/layer/''"

definition list_requests :: "state \<Rightarrow> request list" where
  "list_requests s = filter is_list_request (requests s)"

fun list_request_of :: "jsval option \<Rightarrow> request list" where
  "list_request_of None = []"
| "list_request_of (Some l) =
     (case to_string l of
        None \<Rightarrow> []
      | Some layer \<Rightarrow> [GET (lit ''/api/layer/'' @ layer @ lit ''/annotations'')])"

text \<open>
  The invariant of the tracker: the current page is one of the pages of the document, and
  every observed element is the wrapper of one of them.
\<close>

definition pages_in_range :: "state \<Rightarrow> bool" where
  "pages_in_range s \<longleftrightarrow>
     1 \<le> currentPageNum s \<and> currentPageNum s \<le> totalPages s
     \<and> (\<forall>i \<in> set (observed s). \<exists>k. 1 \<le> k \<and> k \<le> totalPages s \<and> i = page_wrapper_id k)"

text \<open>The three fields the invariant reads are the same in both states.\<close>

definition same_pages :: "state \<Rightarrow> state \<Rightarrow> bool" where
  "same_pages s' s \<longleftrightarrow>
     currentPageNum s' = currentPageNum s \<and> totalPages s' = totalPages s \<and> observed s' = observed s"

text \<open>
  An example of a hosting page before the handler runs, on which the functions are
  evaluated at concrete inputs: user 1 reads book 1, the elements are empty, the dialog is
  hidden and the explanation button carries its label.
\<close>

definition blank_page :: state where
  "blank_page =
     \<lparr>EBOOK_ID = 1, CURRENT_USER_ID = 1, pdfDoc = None, currentPageNum = 1, totalPages = 0,
      currentLayerId = Null, currentHighlightedText = [], viewerContainer = [],
      pageNumDisplay = lit ''1'', pageCountDisplay = lit ''--'', layerSelect = [],
      layerSelect_value = [], annotationList = [], annotationTextarea = [],
      createLayerModal_display = lit ''none'', newLayerNameInput = [],
      newLayerGroupSelect = [], newLayerGroupSelect_value = [],
      askAiBtn_textContent = ask_ai_label, askAiBtn_disabled = False,
      askAiBtn_animation = [], observed = [], mouseup_listeners = 0, scrolled_to = None,
      alerts = [], requests = []\<rparr>"

text \<open>The same page with a draft typed, a quote pending, layer 3 selected, on page 2 of 3.\<close>

definition example_draft :: state where
  "example_draft =
     blank_page\<lparr>annotationTextarea := lit ''my note'', currentLayerId := Num 3,
       currentHighlightedText := lit ''foo bar'', currentPageNum := 2, totalPages := 3\<rparr>"

text \<open>
  The page with the dialog open: the groups request was answered with one group, and the
  user has typed a name.
\<close>

definition example_dialog :: state where
  "example_dialog =
     (openCreateLayerModal
        (Response True (Json (Array [\<lparr>group_id = 12, group_name = lit ''Readers''\<rparr>]))) blank_page)
     \<lparr>newLayerNameInput := lit ''Notes''\<rparr>"

text \<open>
  The page with the dialog just opened: the groups request is still pending, and the user
  has typed a name.
\<close>

definition example_loading_dialog :: state where
  "example_loading_dialog =
     (openCreateLayerModal_sync blank_page)\<lparr>newLayerNameInput := lit ''Notes''\<rparr>"

text \<open>An annotation of user 1, the user of the example page.\<close>

definition example_annotation :: annotation where
  "example_annotation =
     \<lparr>annotation_id = 7, content = lit ''my note'', author_id = 1, author_name = lit ''Ann'',
      highlighted_text = Some (lit ''foo bar''), position_data = Some (lit ''Page 2'')\<rparr>"

text \<open>A document of three pages, all of which render, and a document with no page.\<close>

definition example_document :: pdf_document where
  "example_document = \<lparr>numPages = 3, page_outcome = (\<lambda>_. PageDrawn)\<rparr>"

definition empty_document :: pdf_document where
  "empty_document = \<lparr>numPages = 0, page_outcome = (\<lambda>_. PageDrawn)\<rparr>"

section \<open>Properties\<close>

subsection \<open>Decimal numbers are read back\<close>

lemma unat_digit_char: "d < 10 \<Longrightarrow> unat (digit_char d) = 48 + d"
  unfolding digit_char_def by (simp only: unat_of_nat) simp

lemma is_decimal_digit_char: "d < 10 \<Longrightarrow> is_decimal (digit_char d)"
  by (simp add: is_decimal_def unat_digit_char)

lemma digits_not_Nil: "digits n \<noteq> []"
  by (subst digits.simps) simp

lemma digits_decimal: "list_all is_decimal (digits n)"
proof (induction n rule: digits.induct)
  case (1 n)
  show ?case
  proof (cases "n < 10")
    case True
    then show ?thesis by (subst digits.simps) (simp add: is_decimal_digit_char)
  next
    case False
    with 1 show ?thesis by (subst digits.simps) (simp add: is_decimal_digit_char)
  qed
qed

lemma digit_value_decimal: "is_decimal c \<Longrightarrow> digit_value 10 c = Some (unat c - 48)"
  by (auto simp: is_decimal_def digit_value_def Let_def)

lemma read_digits_append:
  "list_all is_decimal xs \<Longrightarrow> read_digits 10 acc (xs @ ys) = read_digits 10 (read_digits 10 acc xs) ys"
  by (induction xs arbitrary: acc) (simp_all add: digit_value_decimal)

lemma read_digits_digit_char: "d < 10 \<Longrightarrow> read_digits 10 acc [digit_char d] = acc * 10 + d"
  by (simp add: digit_value_decimal is_decimal_digit_char unat_digit_char)

lemma read_digits_digits: "read_digits 10 0 (digits n) = n"
proof (induction n rule: digits.induct)
  case (1 n)
  show ?case
  proof (cases "n < 10")
    case True
    then show ?thesis
      by (subst digits.simps) (simp add: digit_value_decimal is_decimal_digit_char unat_digit_char)
  next
    case False
    with 1 have "read_digits 10 0 (digits (n div 10)) = n div 10" by simp
    with False show ?thesis
      by (subst digits.simps)
        (simp add: read_digits_append digits_decimal digit_value_decimal is_decimal_digit_char
          unat_digit_char)
  qed
qed

lemma not_whitespace_decimal: "is_decimal c \<Longrightarrow> \<not> is_whitespace c"
  by (auto simp: is_decimal_def is_whitespace_def)

lemma decimal_neq: "is_decimal c \<Longrightarrow> c \<noteq> 0x2D \<and> c \<noteq> 0x2B \<and> c \<noteq> 0x78 \<and> c \<noteq> 0x58"
  by (auto simp: is_decimal_def)

lemma parseInt_decimal:
  assumes "s \<noteq> []" and "list_all is_decimal s"
  shows "parseInt s = Some (int (read_digits 10 0 s))"
proof -
  from assms obtain c cs where s: "s = c # cs" and c: "is_decimal c" and cs: "list_all is_decimal cs"
    by (cases s) auto
  have t: "trimStart s = s" by (simp add: s trimStart_def not_whitespace_decimal c)
  have sign: "take 1 s \<noteq> lit ''-''" "take 1 s \<noteq> lit ''+''"
    using decimal_neq[OF c] by (simp_all add: s lit_def)
  have hex: "take 2 s \<noteq> lit ''0x''" "take 2 s \<noteq> lit ''0X''"
    using cs by (cases cs; simp add: s lit_def; use decimal_neq in blast)+
  show ?thesis
    unfolding parseInt_def t Let_def using sign hex
    by (simp add: s digit_value_decimal c)
qed

lemma parseInt_digits: "parseInt (digits n) = Some (int n)"
  by (simp add: parseInt_decimal digits_not_Nil digits_decimal read_digits_digits)

lemma not_hex_decimal:
  assumes "list_all is_decimal s"
  shows "take 2 s \<noteq> lit ''0x''" and "take 2 s \<noteq> lit ''0X''"
proof -
  show "take 2 s \<noteq> lit ''0x''"
  proof (cases s)
    case Nil then show ?thesis by (simp add: lit_def)
  next
    case (Cons c cs)
    with assms show ?thesis using decimal_neq by (cases cs) (auto simp: lit_def)
  qed
  show "take 2 s \<noteq> lit ''0X''"
  proof (cases s)
    case Nil then show ?thesis by (simp add: lit_def)
  next
    case (Cons c cs)
    with assms show ?thesis using decimal_neq by (cases cs) (auto simp: lit_def)
  qed
qed

lemma parseInt_minus_decimal:
  assumes "s \<noteq> []" and "list_all is_decimal s"
  shows "parseInt (0x2D # s) = Some (- int (read_digits 10 0 s))"
proof -
  from assms obtain c cs where s: "s = c # cs" and c: "is_decimal c"
    by (cases s) auto
  have a: "trimStart (0x2D # s) = 0x2D # s"
    by (simp add: trimStart_def is_whitespace_def)
  have b: "take 1 (0x2D # s) = lit ''-''" by (simp add: lit_def)
  have d: "drop 1 (0x2D # s) = s" by simp
  have "parseInt (0x2D # s) =
          (case s of [] \<Rightarrow> None
           | x # _ \<Rightarrow> (case digit_value 10 x of None \<Rightarrow> None
              | Some _ \<Rightarrow> Some (- 1 * int (read_digits 10 0 s))))"
    unfolding parseInt_def Let_def a b d using not_hex_decimal[OF assms(2)] by simp
  then show ?thesis by (simp add: s digit_value_decimal c)
qed

lemma parseInt_string_of_int: "parseInt (string_of_int i) = Some i"
proof (cases "i < 0")
  case False
  then show ?thesis by (simp add: string_of_int_def parseInt_digits)
next
  case True
  have "parseInt (0x2D # digits (nat (- i))) = Some (- int (nat (- i)))"
    by (simp add: parseInt_minus_decimal digits_not_Nil digits_decimal read_digits_digits)
  with True show ?thesis by (simp add: string_of_int_def lit_def)
qed

lemma split_no_sep: "sep \<notin> set s \<Longrightarrow> split sep s = [s]"
  by (induction s) auto

lemma digits_no_hyphen: "0x2D \<notin> set (digits n)"
  using digits_decimal[of n] decimal_neq by (auto simp: list_all_iff)

lemma page_of_id_wrapper: "0 \<le> k \<Longrightarrow> page_of_id (page_wrapper_id k) = Some k"
  by (simp add: page_of_id_def page_wrapper_id_def string_of_int_def lit_def
      split_no_sep digits_no_hyphen parseInt_digits)

subsection \<open>What the handlers leave alone\<close>

lemma normalize_newlines_no_cr: "0x0D \<notin> set s \<Longrightarrow> normalize_newlines s = s"
  by (induction s rule: normalize_newlines.induct) auto

lemma normalize_newlines_append:
  "0x0D \<notin> set s \<Longrightarrow> normalize_newlines (s @ t) = s @ normalize_newlines t"
proof (induction s rule: normalize_newlines.induct)
  case 1
  then show ?case by simp
next
  case (2 c)
  then show ?case by (cases t) auto
next
  case (3 c d s)
  then show ?case by auto
qed

lemma requests_alert [simp]: "requests (alert m s) = requests s"
  by (simp add: alert_def)

lemma requests_renderAnnotations [simp]: "requests (renderAnnotations anns s) = requests s"
  by (simp add: renderAnnotations_def)

lemma requests_renderAnnotations_body [simp]:
  "requests (renderAnnotations_body parsed_body s) = requests s"
  by (simp add: renderAnnotations_body_def split: listing.splits)

lemma requests_fetchLayers:
  "requests (fetchLayers r s) =
     requests s @ [GET (lit ''/api/book/'' @ string_of_int (EBOOK_ID s) @ lit ''/layers'')]"
  by (simp add: fetchLayers_def fetch_def Let_def split: response.splits body.splits listing.splits)

lemma requests_fetchAnnotations:
  "requests (fetchAnnotations l r s) =
     requests s @
     (if truthy l
      then (case to_string l of
              None \<Rightarrow> []
            | Some layer \<Rightarrow> [GET (lit ''/api/layer/'' @ layer @ lit ''/annotations'')])
      else [])"
  by (simp add: fetchAnnotations_def fetchAnnotations_sync_def fetchAnnotations_resume_def
      fetch_def Let_def split: response.splits body.splits option.splits)

lemma mouseup_listeners_observe_entry [simp]:
  "mouseup_listeners (observe_entry e s) = mouseup_listeners s"
  by (simp add: observe_entry_def split: option.splits)

lemma mouseup_listeners_pageObserver_callback [simp]:
  "mouseup_listeners (pageObserver_callback entries s) = mouseup_listeners s"
  unfolding pageObserver_callback_def by (induction entries arbitrary: s) simp_all

lemma mouseup_listeners_mouseup_listener [simp]:
  "mouseup_listeners (mouseup_listener sel s) = mouseup_listeners s"
  by (simp add: mouseup_listener_def Let_def)

lemma mouseup_listeners_mouseup_funpow [simp]:
  "mouseup_listeners ((mouseup_listener sel ^^ n) s) = mouseup_listeners s"
  by (induction n) simp_all

lemma mouseup_listeners_renderAnnotations_body [simp]:
  "mouseup_listeners (renderAnnotations_body parsed_body s) = mouseup_listeners s"
  by (simp add: renderAnnotations_body_def renderAnnotations_def split: listing.splits)

lemma mouseup_listeners_fetchAnnotations [simp]:
  "mouseup_listeners (fetchAnnotations l r s) = mouseup_listeners s"
  by (simp add: fetchAnnotations_def fetchAnnotations_sync_def fetchAnnotations_resume_def
      fetch_def Let_def split: response.splits body.splits option.splits)

lemma mouseup_listeners_fetchLayers [simp]:
  "mouseup_listeners (fetchLayers r s) = mouseup_listeners s"
  by (simp add: fetchLayers_def fetch_def Let_def split: response.splits body.splits listing.splits)

lemma mouseup_listeners_saveAnnotation [simp]:
  "mouseup_listeners (saveAnnotation created listed s) = mouseup_listeners s"
  by (simp add: saveAnnotation_def fetchAnnotations_sync_def fetchAnnotations_resume_def
      fetch_def alert_def Let_def
      split: response.splits body.splits bool.splits option.splits)

lemma mouseup_listeners_deleteAnnotation [simp]:
  "mouseup_listeners (deleteAnnotation i c r s) = mouseup_listeners s"
  by (simp add: deleteAnnotation_def fetch_def Let_def split: response.splits option.splits)

lemma mouseup_listeners_openCreateLayerModal [simp]:
  "mouseup_listeners (openCreateLayerModal r s) = mouseup_listeners s"
  by (simp add: openCreateLayerModal_def openCreateLayerModal_sync_def
      openCreateLayerModal_resume_def fetch_def alert_def Let_def
      split: response.splits body.splits bool.splits listing.splits)

lemma mouseup_listeners_confirm [simp]:
  "mouseup_listeners (confirmLayerBtn_onclick created layers listed s) = mouseup_listeners s"
  by (simp add: confirmLayerBtn_onclick_def fetch_def alert_def Let_def
      split: response.splits body.splits bool.splits)

lemma mouseup_listeners_askAiToExplain [simp]:
  "mouseup_listeners (askAiToExplain r s) = mouseup_listeners s"
  by (simp add: askAiToExplain_def fetch_def alert_def Let_def
      split: response.splits body.splits option.splits)

lemma mouseup_listeners_scroll_to_page [simp]:
  "mouseup_listeners (scroll_to_page n s) = mouseup_listeners s"
  by (simp add: scroll_to_page_def split: option.splits)

lemma mouseup_listeners_step: "mouseup_listeners (step e s) = mouseup_listeners s"
  by (cases e) (simp_all add: cancelLayerBtn_onclick_def)

lemma mouseup_listeners_run: "mouseup_listeners (run es s) = mouseup_listeners s"
  unfolding run_def by (induction es arbitrary: s) (simp_all add: mouseup_listeners_step)

lemma mouseup_listeners_renderPage [simp]:
  "mouseup_listeners (renderPage p s) = mouseup_listeners s"
  by (simp add: renderPage_def Let_def split: option.splits page_outcome.splits)

lemma mouseup_listeners_renderPages [simp]:
  "mouseup_listeners (renderPages p s) = mouseup_listeners s"
  by (induction p s rule: renderPages.induct; subst renderPages.simps; simp)

text \<open>
  A successful load ends by installing the listener of the viewer; a failed load installs
  none.
\<close>

lemma listener_installed: "0 < mouseup_listeners (run es (startup layers (Some doc) page))"
  by (simp add: mouseup_listeners_run startup_def loadPdf_def setupTextSelection_def)

lemma no_listener_after_failed_load:
  "mouseup_listeners (run es (startup layers None page)) = mouseup_listeners page"
  by (simp add: mouseup_listeners_run startup_def loadPdf_def alert_def declare_variables_def)

subsection \<open>Selection capture\<close>

lemma mouseup_listener_idem:
  "mouseup_listener sel (mouseup_listener sel s) = mouseup_listener sel s"
  by (simp add: mouseup_listener_def Let_def)

lemma mouseup_listener_funpow:
  "0 < n \<Longrightarrow> (mouseup_listener sel ^^ n) s = mouseup_listener sel s"
proof (induction n)
  case 0
  then show ?case by simp
next
  case (Suc n)
  then show ?case by (cases "n = 0") (simp_all add: mouseup_listener_idem)
qed

lemma trim_foo_bar: "trim (lit '' foo bar '') = lit ''foo bar''"
  by (simp add: trim_def lit_def is_whitespace_def)

lemma trim_blanks: "trim (lit ''   '') = []"
  by (simp add: trim_def lit_def is_whitespace_def)

lemma example_startup:
  "observed (startup Rejected (Some example_document) blank_page) =
     [page_wrapper_id 1, page_wrapper_id 2, page_wrapper_id 3]"
  "currentPageNum (startup Rejected (Some example_document) blank_page) = 1"
  "currentHighlightedText (startup Rejected (Some example_document) blank_page) = []"
  by (simp_all add: startup_def loadPdf_def renderAllPages_def renderPages.simps renderPage_def
      setupTextSelection_def fetchLayers_def fetch_def declare_variables_def Let_def
      example_document_def)

text \<open>
  C6, as the code has it. The listener of the viewer is installed by \<open>loadPdf\<close> after
  the pages have been rendered. From then on, after any sequence of events, a pointer
  release in the viewer with a selection that is not empty after trimming makes it the
  pending quote (\<open>currentHighlightedText\<close>), replacing the previous one, and changes
  nothing else; a selection that is empty after trimming leaves the state, and so the
  pending quote, as it was. After a failed load, on a page that had no such listener, a
  pointer release changes nothing, whatever the selection.
\<close>

theorem pending_quote_on_mouseup:
  "(trim selection \<noteq> [] \<longrightarrow>
      step (MouseUp selection) (run es (startup layers (Some doc) page)) =
        (run es (startup layers (Some doc) page))\<lparr>currentHighlightedText := trim selection\<rparr>)
   \<and> (trim selection = [] \<longrightarrow>
      step (MouseUp selection) (run es (startup layers (Some doc) page)) =
        run es (startup layers (Some doc) page))
   \<and> (mouseup_listeners page = 0 \<longrightarrow>
      step (MouseUp selection) (run es (startup layers None page)) =
        run es (startup layers None page))"
  using listener_installed[of es layers doc page]
  by (simp add: mouseup_listener_funpow mouseup_listener_def Let_def no_listener_after_failed_load)

theorem pending_quote_on_mouseup_witness:
  "currentHighlightedText
     (step (MouseUp (lit '' foo bar ''))
        (run [MouseUp (lit ''old'')] (startup Rejected (Some example_document) blank_page))) =
     lit ''foo bar''
   \<and> currentHighlightedText
     (step (MouseUp (lit ''   ''))
        (run [MouseUp (lit ''old'')] (startup Rejected (Some example_document) blank_page))) =
     lit ''old''
   \<and> step (MouseUp (lit '' foo bar '')) (run [] (startup Rejected None blank_page)) =
     run [] (startup Rejected None blank_page)"
proof -
  let ?s = "startup Rejected (Some example_document) blank_page"
  have ne: "lit ''foo bar'' \<noteq> []" "lit ''old'' \<noteq> []" by (simp_all add: lit_def)
  have old: "trim (lit ''old'') = lit ''old''"
    by (simp add: trim_def lit_def is_whitespace_def)
  have "step (MouseUp (lit ''old'')) (run [] ?s) = (run [] ?s)\<lparr>currentHighlightedText := lit ''old''\<rparr>"
    using pending_quote_on_mouseup[of "lit ''old''" "[]" Rejected example_document blank_page]
    by (simp add: old ne)
  then have r: "currentHighlightedText (run [MouseUp (lit ''old'')] ?s) = lit ''old''"
    by (simp add: run_def)
  have z: "mouseup_listeners blank_page = 0" by (simp add: blank_page_def)
  show ?thesis
    using pending_quote_on_mouseup[of "lit '' foo bar ''" "[MouseUp (lit ''old'')]" Rejected
            example_document blank_page]
          pending_quote_on_mouseup[of "lit ''   ''" "[MouseUp (lit ''old'')]" Rejected
            example_document blank_page]
          pending_quote_on_mouseup[of "lit '' foo bar ''" "[]" Rejected example_document blank_page]
          r z
    by (simp add: trim_foo_bar trim_blanks ne)
qed

text \<open>
  C6 as stated fails when the document could not be loaded: the viewer has no listener,
  and a pointer release with a selection that is not empty after trimming leaves the
  pending quote empty.
\<close>

theorem no_listener_counterexample:
  "trim (lit '' foo bar '') = lit ''foo bar''
   \<and> lit ''foo bar'' \<noteq> []
   \<and> currentHighlightedText
       (step (MouseUp (lit '' foo bar '')) (startup Rejected None blank_page)) = []"
proof -
  have ne: "lit ''foo bar'' \<noteq> []" by (simp add: lit_def)
  show ?thesis
    by (simp add: trim_foo_bar ne startup_def loadPdf_def fetchLayers_def fetch_def alert_def
        declare_variables_def blank_page_def Let_def)
qed

subsection \<open>Saving an annotation\<close>

lemma trim_my_note: "trim (lit ''my note'') = lit ''my note''"
  by (simp add: trim_def lit_def is_whitespace_def)

lemma string_of_int_2: "string_of_int 2 = lit ''2''"
  by (simp add: string_of_int_def digits.simps digit_char_def lit_def)

lemma string_of_int_3: "string_of_int 3 = lit ''3''"
  by (simp add: string_of_int_def digits.simps digit_char_def lit_def)

text \<open>
  C3. A save whose trimmed content is empty, or for which no layer is selected
  (\<open>currentLayerId\<close> is \<open>null\<close>, or falsy in general), shows one message and issues
  no request: the log of requests is unchanged, the log of alerts has the message of the
  failed check appended, and nothing else in the state changes.
\<close>

theorem save_fails_fast:
  assumes "trim (annotationTextarea s) = [] \<or> \<not> truthy (currentLayerId s)"
  shows "requests (saveAnnotation created listed s) = requests s
    \<and> alerts (saveAnnotation created listed s) =
        alerts s @ [if trim (annotationTextarea s) = [] then lit ''Please write a note.''
                    else lit ''Please select a journal layer.'']
    \<and> saveAnnotation created listed s =
        alert (if trim (annotationTextarea s) = [] then lit ''Please write a note.''
               else lit ''Please select a journal layer.'') s"
  using assms by (auto simp: saveAnnotation_def alert_def Let_def)

theorem save_fails_fast_witness:
  "requests (saveAnnotation (Rejected :: jsval response) Rejected
      (blank_page\<lparr>annotationTextarea := lit ''   '', currentLayerId := Num 3\<rparr>)) = []
   \<and> alerts (saveAnnotation (Rejected :: jsval response) Rejected
      (blank_page\<lparr>annotationTextarea := lit ''   '', currentLayerId := Num 3\<rparr>))
       = [lit ''Please write a note.'']
   \<and> requests (saveAnnotation (Rejected :: jsval response) Rejected
      (blank_page\<lparr>annotationTextarea := lit ''my note''\<rparr>)) = []
   \<and> alerts (saveAnnotation (Rejected :: jsval response) Rejected
      (blank_page\<lparr>annotationTextarea := lit ''my note''\<rparr>))
       = [lit ''Please select a journal layer.'']"
proof -
  have ne: "lit ''my note'' \<noteq> []" by (simp add: lit_def)
  show ?thesis
    using save_fails_fast[of "blank_page\<lparr>annotationTextarea := lit ''   '', currentLayerId := Num 3\<rparr>"
            "Rejected :: jsval response" Rejected]
          save_fails_fast[of "blank_page\<lparr>annotationTextarea := lit ''my note''\<rparr>"
            "Rejected :: jsval response" Rejected]
    by (simp add: trim_blanks trim_my_note ne blank_page_def alert_def)
qed

text \<open>
  C4. A save that passes both checks and whose create request is answered with a success
  status clears the textarea and the pending quote, and issues exactly two requests: the
  create request, with the content, the layer, the quote and the page of that moment, and
  then the list request for the same layer. The annotation list it leaves is built from
  the answer to the list request alone: one card for each annotation the backend lists, in
  the order of the answer, or the note that there are none; when no usable answer arrives
  (the fetch rejects or the body does not parse) the loading line stays, and a body that
  is not an array leaves the list empty (or with the note that there are none, when its
  \<open>length\<close> is 0). Neither the draft nor the list shown before the save enters the
  new list: the new annotation is not inserted locally. No message is shown. (The layer
  id has a string form in every state the page reaches, lemma
  \<open>layer_id_has_string_form\<close> below.)
\<close>

theorem save_success_refetches:
  assumes "trim (annotationTextarea s) \<noteq> []" and "truthy (currentLayerId s)"
    and "to_string (currentLayerId s) = Some layer"
  shows "annotationTextarea (saveAnnotation (Response True b) listed s) = []
    \<and> currentHighlightedText (saveAnnotation (Response True b) listed s) = []
    \<and> requests (saveAnnotation (Response True b) listed s) =
        requests s @
        [POST_json (lit ''/api/annotation/new'')
           (Obj [(lit ''content'', Str (trim (annotationTextarea s))),
                 (lit ''layer_id'', currentLayerId s),
                 (lit ''highlighted_text'', Str (currentHighlightedText s)),
                 (lit ''position_data'', Str (lit ''Page '' @ string_of_int (currentPageNum s)))]),
         GET (lit ''/api/layer/'' @ layer @ lit ''/annotations'')]
    \<and> annotationList (saveAnnotation (Response True b) listed s) =
        (case listed of
           Response status (Json (Array annotations)) \<Rightarrow>
             if annotations = []
             then [paragraph_node grey_centered (lit ''No notes yet. Start writing below!'')]
             else map (annotation_card (CURRENT_USER_ID s)) annotations
         | Response status (Json (NotArray v)) \<Rightarrow>
             if length_is_zero v
             then [paragraph_node grey_centered (lit ''No notes yet. Start writing below!'')]
             else []
         | _ \<Rightarrow>
             [paragraph_node [(lit ''text-align'', lit ''center''), (lit ''margin-top'', lit ''2rem'')]
                (lit ''Loading...'')])
    \<and> alerts (saveAnnotation (Response True b) listed s) = alerts s"
  using assms
  by (simp add: saveAnnotation_def fetchAnnotations_sync_def fetchAnnotations_resume_def
      renderAnnotations_body_def renderAnnotations_def fetch_def Let_def
      split: response.splits body.splits listing.splits)

theorem save_success_refetches_witness:
  "annotationTextarea
     (saveAnnotation (Response True (NotJson :: jsval body))
        (Response True (Json (Array [example_annotation]))) example_draft) = []
   \<and> currentHighlightedText
     (saveAnnotation (Response True (NotJson :: jsval body))
        (Response True (Json (Array [example_annotation]))) example_draft) = []
   \<and> requests
     (saveAnnotation (Response True (NotJson :: jsval body))
        (Response True (Json (Array [example_annotation]))) example_draft) =
     [POST_json (lit ''/api/annotation/new'')
        (Obj [(lit ''content'', Str (lit ''my note'')), (lit ''layer_id'', Num 3),
              (lit ''highlighted_text'', Str (lit ''foo bar'')),
              (lit ''position_data'', Str (lit ''Page '' @ lit ''2''))]),
      GET (lit ''/api/layer/'' @ lit ''3'' @ lit ''/annotations'')]
   \<and> annotationList
     (saveAnnotation (Response True (NotJson :: jsval body))
        (Response True (Json (Array [example_annotation]))) example_draft) =
     [annotation_card 1 example_annotation]
   \<and> annotationList
     (saveAnnotation (Response True (NotJson :: jsval body)) (Response True (Json (Array [])))
        example_draft) =
     [paragraph_node grey_centered (lit ''No notes yet. Start writing below!'')]"
proof -
  have ne: "lit ''my note'' \<noteq> []" by (simp add: lit_def)
  show ?thesis
    using save_success_refetches[of example_draft "lit ''3''" "NotJson :: jsval body"
            "Response True (Json (Array [example_annotation]))"]
          save_success_refetches[of example_draft "lit ''3''" "NotJson :: jsval body"
            "Response True (Json (Array []))"]
    by (simp add: example_draft_def blank_page_def trim_my_note ne string_of_int_2 string_of_int_3)
qed

subsection \<open>Asking for an explanation\<close>

lemma ask_ai_button_after:
  assumes "trim (annotationTextarea s) \<noteq> []"
  shows "askAiBtn_disabled (askAiToExplain resp s) = False"
    and "askAiBtn_textContent (askAiToExplain resp s) = ask_ai_label"
    and "askAiBtn_animation (askAiToExplain resp s) = lit ''none''"
  using assms by (simp_all add: askAiToExplain_def Let_def)

lemma ask_ai_empty_draft:
  assumes "trim (annotationTextarea s) = []"
  shows "askAiToExplain resp s = alert (lit ''Please write a question or thought in the box first.'') s"
  using assms by (simp add: askAiToExplain_def Let_def)

text \<open>
  The label is the one the button had before the click exactly when that label was the
  literal of the \<open>finally\<close> block.
\<close>

lemma ask_ai_label_kept_iff:
  assumes "trim (annotationTextarea s) \<noteq> []"
  shows "askAiBtn_textContent (askAiToExplain resp s) = askAiBtn_textContent s
     \<longleftrightarrow> askAiBtn_textContent s = ask_ai_label"
  using ask_ai_button_after(2)[OF assms, of resp] by auto

text \<open>
  C8, evaluated. The draft is not empty and the button carries the label \<open>Ask AI\<close>.
  Whether the request is answered with an explanation or rejected, the function ends with
  the button enabled and its animation off, and with the literal of the \<open>finally\<close>
  block as its label, which is not the label the button had: \<open>originalText\<close> holds
  that label and is never written back.
\<close>

theorem ask_ai_label_not_restored:
  "askAiBtn_textContent (example_draft\<lparr>askAiBtn_textContent := lit ''Ask AI''\<rparr>) = lit ''Ask AI''
   \<and> askAiBtn_disabled
       (askAiToExplain (Response True (Json (Obj [(lit ''explanation'', Str (lit ''because''))])))
          (example_draft\<lparr>askAiBtn_textContent := lit ''Ask AI''\<rparr>)) = False
   \<and> askAiBtn_textContent
       (askAiToExplain (Response True (Json (Obj [(lit ''explanation'', Str (lit ''because''))])))
          (example_draft\<lparr>askAiBtn_textContent := lit ''Ask AI''\<rparr>)) = ask_ai_label
   \<and> askAiBtn_disabled
       (askAiToExplain Rejected (example_draft\<lparr>askAiBtn_textContent := lit ''Ask AI''\<rparr>)) = False
   \<and> askAiBtn_textContent
       (askAiToExplain Rejected (example_draft\<lparr>askAiBtn_textContent := lit ''Ask AI''\<rparr>)) =
       ask_ai_label
   \<and> ask_ai_label \<noteq> lit ''Ask AI''"
proof -
  have ne: "lit ''my note'' \<noteq> []" by (simp add: lit_def)
  have "ask_ai_label \<noteq> lit ''Ask AI''" by (simp add: ask_ai_label_def lit_def)
  then show ?thesis
    by (simp add: askAiToExplain_def Let_def example_draft_def blank_page_def trim_my_note ne)
qed

lemma explanation_None_iff: "explanation data = None \<longleftrightarrow> data = Null \<or> data = Undefined"
  by (cases data) auto

lemma those_map_None_iff: "those (map f xs) = None \<longleftrightarrow> (\<exists>x \<in> set xs. f x = None)"
  by (induction xs) (auto split: option.splits)

lemma to_string_Arr_None_iff:
  "to_string (Arr vs) = None
     \<longleftrightarrow> (\<exists>v \<in> set vs. v \<noteq> Undefined \<and> v \<noteq> Null \<and> to_string v = None)"
  by (auto simp: those_map_None_iff split: if_splits)

text \<open>
  C10, as the code has it. The status of the response is never read. For a draft that
  passes the check and a response whose body parses to a value other than \<open>null\<close>,
  whatever the status, the member \<open>explanation\<close> is converted to a string; when the
  conversion succeeds the block \<open>[AI]: \<close> with that string is appended to the draft,
  which the textarea reads back with its carriage returns turned into line feeds (so as
  written when there are none), and no message is shown; an object without that member
  appends \<open>undefined\<close>. The message is shown, and the draft is left as it was, when
  the fetch rejects, when the body does not parse, when the body parses to \<open>null\<close>,
  where reading the member throws, and when the member has no string form, where the
  conversion throws: an object with a member named \<open>toString\<close>, or an array with
  such an element.
\<close>

theorem ask_ai_ignores_status:
  assumes "trim (annotationTextarea s) \<noteq> []"
  shows "(explanation data = Some e \<and> to_string e = Some answer \<longrightarrow>
           annotationTextarea (askAiToExplain (Response status (Json data)) s) =
             normalize_newlines
               (annotationTextarea s @ [0x0A, 0x0A] @ lit ''[AI]: '' @ answer @ [0x0A])
           \<and> alerts (askAiToExplain (Response status (Json data)) s) = alerts s)
    \<and> (explanation data = Some e \<and> to_string e = Some answer
          \<and> 0x0D \<notin> set (annotationTextarea s) \<and> 0x0D \<notin> set answer \<longrightarrow>
           annotationTextarea (askAiToExplain (Response status (Json data)) s) =
             annotationTextarea s @ [0x0A, 0x0A] @ lit ''[AI]: '' @ answer @ [0x0A])
    \<and> (map_of members (lit ''explanation'') = None \<and> 0x0D \<notin> set (annotationTextarea s) \<longrightarrow>
           annotationTextarea (askAiToExplain (Response status (Json (Obj members))) s) =
             annotationTextarea s @ [0x0A, 0x0A] @ lit ''[AI]: '' @ lit ''undefined'' @ [0x0A]
           \<and> alerts (askAiToExplain (Response status (Json (Obj members))) s) = alerts s)
    \<and> (explanation data = None \<or> (explanation data = Some e \<and> to_string e = None) \<longrightarrow>
           alerts (askAiToExplain (Response status (Json data)) s) =
             alerts s @ [lit ''AI could not respond.'']
           \<and> annotationTextarea (askAiToExplain (Response status (Json data)) s) =
             annotationTextarea s)
    \<and> alerts (askAiToExplain (Response status NotJson) s) = alerts s @ [lit ''AI could not respond.'']
    \<and> annotationTextarea (askAiToExplain (Response status NotJson) s) = annotationTextarea s
    \<and> alerts (askAiToExplain Rejected s) = alerts s @ [lit ''AI could not respond.'']
    \<and> annotationTextarea (askAiToExplain Rejected s) = annotationTextarea s
    \<and> (explanation data = None \<longleftrightarrow> data = Null \<or> data = Undefined)
    \<and> (to_string (Obj members) = None \<longleftrightarrow> map_of members (lit ''toString'') \<noteq> None)
    \<and> (to_string (Arr vs) = None
         \<longleftrightarrow> (\<exists>v \<in> set vs. v \<noteq> Undefined \<and> v \<noteq> Null \<and> to_string v = None))
    \<and> to_string Undefined \<noteq> None \<and> to_string Null \<noteq> None \<and> to_string (Bool t) \<noteq> None
    \<and> to_string (Num n) \<noteq> None \<and> to_string (Str u) \<noteq> None"
proof -
  have a: "explanation data = Some e \<and> to_string e = Some answer \<longrightarrow>
           annotationTextarea (askAiToExplain (Response status (Json data)) s) =
             normalize_newlines
               (annotationTextarea s @ [0x0A, 0x0A] @ lit ''[AI]: '' @ answer @ [0x0A])
           \<and> alerts (askAiToExplain (Response status (Json data)) s) = alerts s"
    using assms by (simp add: askAiToExplain_def Let_def fetch_def alert_def)
  have nl: "0x0D \<notin> set ([0x0A, 0x0A] @ lit ''[AI]: '')" "(0x0D :: jschar) \<notin> set [0x0A]"
    by (simp_all add: lit_def)
  have a': "explanation data = Some e \<and> to_string e = Some answer
          \<and> 0x0D \<notin> set (annotationTextarea s) \<and> 0x0D \<notin> set answer \<longrightarrow>
           annotationTextarea (askAiToExplain (Response status (Json data)) s) =
             annotationTextarea s @ [0x0A, 0x0A] @ lit ''[AI]: '' @ answer @ [0x0A]"
  proof (intro impI, elim conjE)
    assume e: "explanation data = Some e" "to_string e = Some answer"
      and cr: "0x0D \<notin> set (annotationTextarea s)" "0x0D \<notin> set answer"
    from cr nl have "0x0D \<notin> set (annotationTextarea s @ [0x0A, 0x0A] @ lit ''[AI]: '' @ answer @ [0x0A])"
      by simp
    from normalize_newlines_no_cr[OF this] a e
    show "annotationTextarea (askAiToExplain (Response status (Json data)) s) =
             annotationTextarea s @ [0x0A, 0x0A] @ lit ''[AI]: '' @ answer @ [0x0A]"
      by simp
  qed
  have u: "0x0D \<notin> set (lit ''undefined'')" by (simp add: lit_def)
  have b: "map_of members (lit ''explanation'') = None \<and> 0x0D \<notin> set (annotationTextarea s) \<longrightarrow>
           annotationTextarea (askAiToExplain (Response status (Json (Obj members))) s) =
             annotationTextarea s @ [0x0A, 0x0A] @ lit ''[AI]: '' @ lit ''undefined'' @ [0x0A]
           \<and> alerts (askAiToExplain (Response status (Json (Obj members))) s) = alerts s"
  proof (intro impI, elim conjE)
    assume m: "map_of members (lit ''explanation'') = None"
      and cr: "0x0D \<notin> set (annotationTextarea s)"
    from cr nl u
    have "0x0D \<notin> set (annotationTextarea s @ [0x0A, 0x0A] @ lit ''[AI]: '' @ lit ''undefined'' @ [0x0A])"
      by simp
    from normalize_newlines_no_cr[OF this] m assms
    show "annotationTextarea (askAiToExplain (Response status (Json (Obj members))) s) =
             annotationTextarea s @ [0x0A, 0x0A] @ lit ''[AI]: '' @ lit ''undefined'' @ [0x0A]
           \<and> alerts (askAiToExplain (Response status (Json (Obj members))) s) = alerts s"
      by (simp add: askAiToExplain_def Let_def fetch_def alert_def)
  qed
  have c: "explanation data = None \<or> (explanation data = Some e \<and> to_string e = None) \<longrightarrow>
           alerts (askAiToExplain (Response status (Json data)) s) =
             alerts s @ [lit ''AI could not respond.'']
           \<and> annotationTextarea (askAiToExplain (Response status (Json data)) s) =
             annotationTextarea s"
    using assms by (auto simp: askAiToExplain_def Let_def fetch_def alert_def)
  have d: "alerts (askAiToExplain (Response status NotJson) s) = alerts s @ [lit ''AI could not respond.'']"
    "annotationTextarea (askAiToExplain (Response status NotJson) s) = annotationTextarea s"
    "alerts (askAiToExplain Rejected s) = alerts s @ [lit ''AI could not respond.'']"
    "annotationTextarea (askAiToExplain Rejected s) = annotationTextarea s"
    using assms by (simp_all add: askAiToExplain_def Let_def fetch_def alert_def)
  have f: "to_string (Obj members) = None \<longleftrightarrow> map_of members (lit ''toString'') \<noteq> None"
    "to_string Undefined \<noteq> None" "to_string Null \<noteq> None" "to_string (Bool t) \<noteq> None"
    "to_string (Num n) \<noteq> None" "to_string (Str u) \<noteq> None"
    by simp_all
  from a a' b c d f explanation_None_iff[of data] to_string_Arr_None_iff[of vs]
  show ?thesis by blast
qed

theorem ask_ai_ignores_status_witness:
  "annotationTextarea
     (askAiToExplain (Response False (Json (Obj [(lit ''error'', Str (lit ''quota''))]))) example_draft) =
     lit ''my note'' @ [0x0A, 0x0A] @ lit ''[AI]: '' @ lit ''undefined'' @ [0x0A]
   \<and> alerts
     (askAiToExplain (Response False (Json (Obj [(lit ''error'', Str (lit ''quota''))]))) example_draft) = []
   \<and> annotationTextarea
     (askAiToExplain
        (Response True (Json (Obj [(lit ''explanation'', Str (lit ''because''))]))) example_draft) =
     lit ''my note'' @ [0x0A, 0x0A] @ lit ''[AI]: '' @ lit ''because'' @ [0x0A]
   \<and> alerts
     (askAiToExplain
        (Response True (Json (Obj [(lit ''explanation'', Obj [(lit ''toString'', Num 0)])])))
        example_draft) = [lit ''AI could not respond.'']
   \<and> alerts (askAiToExplain Rejected example_draft) = [lit ''AI could not respond.'']"
proof -
  have ne: "lit ''my note'' \<noteq> []" by (simp add: lit_def)
  have cr: "0x0D \<notin> set (lit ''my note'')" "0x0D \<notin> set (lit ''because'')"
    by (simp_all add: lit_def)
  have m: "map_of [(lit ''error'', Str (lit ''quota''))] (lit ''explanation'') = None"
    by (simp add: lit_def)
  have e1: "explanation (Obj [(lit ''explanation'', Str (lit ''because''))]) = Some (Str (lit ''because''))"
    by simp
  have e2: "explanation (Obj [(lit ''explanation'', Obj [(lit ''toString'', Num 0)])]) =
              Some (Obj [(lit ''toString'', Num 0)])"
    by simp
  have t2: "to_string (Obj [(lit ''toString'', Num 0)]) = None" by simp
  have s: "annotationTextarea example_draft = lit ''my note''" "alerts example_draft = []"
    by (simp_all add: example_draft_def blank_page_def)
  have nn: "normalize_newlines
              (lit ''my note'' @ 0x0A # 0x0A # lit ''[AI]: '' @ lit ''because'' @ [0x0A]) =
            lit ''my note'' @ 0x0A # 0x0A # lit ''[AI]: '' @ lit ''because'' @ [0x0A]"
    by (simp add: lit_def)
  show ?thesis
    using ask_ai_ignores_status[where s = example_draft
            and data = "Obj [(lit ''explanation'', Str (lit ''because''))]"
            and e = "Str (lit ''because'')" and answer = "lit ''because''" and status = True
            and members = "[(lit ''error'', Str (lit ''quota''))]"
            and vs = "[]" and t = True and n = 0 and u = "[]"]
          ask_ai_ignores_status[where s = example_draft
            and data = "Obj [(lit ''explanation'', Obj [(lit ''toString'', Num 0)])]"
            and e = "Obj [(lit ''toString'', Num 0)]" and answer = "[]" and status = True
            and members = "[(lit ''error'', Str (lit ''quota''))]"
            and vs = "[]" and t = True and n = 0 and u = "[]"]
          ask_ai_ignores_status[where s = example_draft and status = False
            and data = Null and e = Null and answer = "[]"
            and members = "[(lit ''error'', Str (lit ''quota''))]"
            and vs = "[]" and t = True and n = 0 and u = "[]"]
          m cr
    by (simp add: s trim_my_note ne e1 e2 t2 nn)
qed

text \<open>
  C10 as stated fails on the body \<open>null\<close>, and on a body whose member
  \<open>explanation\<close> is an object with a member \<open>toString\<close>: each parses as JSON, yet
  the message is shown and nothing is appended.
\<close>

theorem ask_ai_null_body_counterexample:
  "alerts (askAiToExplain (Response True (Json Null)) example_draft) = [lit ''AI could not respond.'']
   \<and> annotationTextarea (askAiToExplain (Response True (Json Null)) example_draft) = lit ''my note''
   \<and> alerts
       (askAiToExplain
          (Response True (Json (Obj [(lit ''explanation'', Obj [(lit ''toString'', Num 0)])])))
          example_draft) = [lit ''AI could not respond.'']
   \<and> annotationTextarea
       (askAiToExplain
          (Response True (Json (Obj [(lit ''explanation'', Obj [(lit ''toString'', Num 0)])])))
          example_draft) = lit ''my note''"
proof -
  have ne: "lit ''my note'' \<noteq> []" by (simp add: lit_def)
  show ?thesis
    by (simp add: askAiToExplain_def Let_def example_draft_def blank_page_def trim_my_note ne
        fetch_def alert_def)
qed

subsection \<open>The dialog that creates a layer\<close>

lemma confirm_requests:
  assumes "trim (newLayerNameInput s) \<noteq> []"
  shows "\<exists>rest. requests (confirmLayerBtn_onclick created layers listed s) =
      requests s @
      POST_json (lit ''/api/layer/new'')
        (Obj [(lit ''name'', Str (trim (newLayerNameInput s))),
              (lit ''ebook_id'', Num (EBOOK_ID s)),
              (lit ''study_group_id'', studyGroupId (newLayerGroupSelect_value s))]) # rest"
  using assms
  by (simp add: confirmLayerBtn_onclick_def Let_def requests_fetchLayers requests_fetchAnnotations
      fetch_def split: response.splits body.splits bool.splits option.splits)

lemma string_of_int_0: "string_of_int 0 = lit ''0''"
  by (simp add: string_of_int_def digits.simps digit_char_def lit_def)

lemma string_of_int_inj_0: "n \<noteq> 0 \<Longrightarrow> string_of_int n \<noteq> lit ''0''"
proof
  assume n: "n \<noteq> 0" and "string_of_int n = lit ''0''"
  then have "parseInt (string_of_int n) = parseInt (string_of_int 0)"
    by (simp add: string_of_int_0)
  with n show False by (simp add: parseInt_string_of_int)
qed

lemma trim_Notes: "trim (lit ''Notes'') = lit ''Notes''"
  by (simp add: trim_def lit_def is_whitespace_def)

lemma string_of_int_12: "string_of_int 12 = lit ''12''"
  by (simp add: string_of_int_def digits.simps digit_char_def lit_def)

lemma example_dialog_fields:
  "newLayerNameInput example_dialog = lit ''Notes''"
  "newLayerGroupSelect_value example_dialog = lit ''0''"
  "createLayerModal_display example_dialog = lit ''flex''"
  "requests example_dialog = [GET (lit ''/api/user/groups'')]"
  "alerts example_dialog = []"
  "EBOOK_ID example_dialog = 1"
  by (simp_all add: example_dialog_def openCreateLayerModal_def openCreateLayerModal_sync_def
      openCreateLayerModal_resume_def blank_page_def fetch_def Let_def)

lemma example_loading_dialog_fields:
  "newLayerNameInput example_loading_dialog = lit ''Notes''"
  "newLayerGroupSelect example_loading_dialog =
     [option_node [(lit ''value'', [])] (lit ''Loading groups...'')]"
  "newLayerGroupSelect_value example_loading_dialog = []"
  "createLayerModal_display example_loading_dialog = lit ''flex''"
  "requests example_loading_dialog = [GET (lit ''/api/user/groups'')]"
  "alerts example_loading_dialog = []"
  "EBOOK_ID example_loading_dialog = 1"
  by (simp_all add: example_loading_dialog_def openCreateLayerModal_sync_def blank_page_def
      fetch_def)

lemma parseInt_empty: "parseInt [] = None"
  by (simp add: parseInt_def trimStart_def Let_def lit_def)

text \<open>
  C5, as the code has it. A confirmation with a name issues the create request with the
  payload \<open>{name, ebook_id, study_group_id}\<close>, where \<open>study_group_id\<close> is computed
  from the value of the scope select: the sentinel \<open>"0"\<close> gives \<open>null\<close>; every
  other value gives what \<open>parseInt\<close> reads from it, so the value of the option of a
  group, the decimal form of its id, gives that id. A value \<open>parseInt\<close> reads no
  number from is \<open>NaN\<close>, which the payload carries as \<open>null\<close>: so it is for the
  empty value of the option \<open>Loading groups...\<close>, the one selected from the moment
  the dialog is shown until the groups have arrived.
\<close>

theorem study_group_id_of_scope:
  assumes "trim (newLayerNameInput s) \<noteq> []"
  shows "(\<exists>rest. requests (confirmLayerBtn_onclick created layers listed s) =
      requests s @
      POST_json (lit ''/api/layer/new'')
        (Obj [(lit ''name'', Str (trim (newLayerNameInput s))),
              (lit ''ebook_id'', Num (EBOOK_ID s)),
              (lit ''study_group_id'', studyGroupId (newLayerGroupSelect_value s))]) # rest)
    \<and> studyGroupId (lit ''0'') = Null
    \<and> (v \<noteq> lit ''0'' \<longrightarrow>
          studyGroupId v = (case parseInt v of None \<Rightarrow> Null | Some n \<Rightarrow> Num n))
    \<and> (n \<noteq> 0 \<longrightarrow> studyGroupId (string_of_int n) = Num n)
    \<and> studyGroupId [] = Null"
  using confirm_requests[OF assms]
  by (simp add: studyGroupId_def parseInt_string_of_int string_of_int_inj_0 parseInt_empty)

theorem study_group_id_of_scope_witness:
  "(\<exists>rest. requests (confirmLayerBtn_onclick Rejected Rejected Rejected example_dialog) =
      [GET (lit ''/api/user/groups''),
       POST_json (lit ''/api/layer/new'')
        (Obj [(lit ''name'', Str (lit ''Notes'')), (lit ''ebook_id'', Num 1),
              (lit ''study_group_id'', Null)])] @ rest)
   \<and> studyGroupId (lit ''12'') = Num 12"
proof -
  have ne: "lit ''Notes'' \<noteq> []" by (simp add: lit_def)
  show ?thesis
    using study_group_id_of_scope[of example_dialog Rejected Rejected Rejected "lit ''12''" 12]
    by (auto simp: example_dialog_fields trim_Notes ne string_of_int_12)
qed

text \<open>
  C5 as stated fails while the groups are loading: the dialog is shown, the select holds
  the one option \<open>Loading groups...\<close>, whose value is empty. That value is not the
  sentinel, and \<open>parseInt\<close> reads no integer from it; a confirmation submits
  \<open>study_group_id: null\<close>.
\<close>

theorem loading_option_counterexample:
  "createLayerModal_display example_loading_dialog = lit ''flex''
   \<and> newLayerGroupSelect example_loading_dialog =
       [option_node [(lit ''value'', [])] (lit ''Loading groups...'')]
   \<and> newLayerGroupSelect_value example_loading_dialog = []
   \<and> [] \<noteq> lit ''0''
   \<and> parseInt [] = None
   \<and> requests (confirmLayerBtn_onclick Rejected Rejected Rejected example_loading_dialog) =
       [GET (lit ''/api/user/groups''),
        POST_json (lit ''/api/layer/new'')
          (Obj [(lit ''name'', Str (lit ''Notes'')), (lit ''ebook_id'', Num 1),
                (lit ''study_group_id'', Null)])]"
proof -
  have ne: "lit ''Notes'' \<noteq> []" "[] \<noteq> lit ''0''" by (simp_all add: lit_def)
  show ?thesis
    by (simp add: confirmLayerBtn_onclick_def Let_def example_loading_dialog_fields trim_Notes ne
        parseInt_empty studyGroupId_def fetch_def alert_def)
qed

text \<open>
  C2, as the code has it. When the groups request fails (the fetch rejects, the status is
  not a success, or the body does not parse), the dialog is closed, one message is shown
  and no further request is made. When the create request fails (the fetch rejects or the
  status is not a success), one message is shown and no further request is made, and the
  dialog stays as it was: \<open>confirmLayerBtn.onclick\<close> hides it only after a success
  status.
\<close>

theorem layer_dialog_failures:
  "(resp = Rejected \<or> resp = Response False b \<or> resp = Response True NotJson \<longrightarrow>
      createLayerModal_display (openCreateLayerModal resp s) = lit ''none''
      \<and> alerts (openCreateLayerModal resp s) = alerts s @ [lit ''Error loading groups.'']
      \<and> requests (openCreateLayerModal resp s) = requests s @ [GET (lit ''/api/user/groups'')])
   \<and> (trim (newLayerNameInput s) \<noteq> [] \<and> (created = Rejected \<or> created = Response False b') \<longrightarrow>
      createLayerModal_display (confirmLayerBtn_onclick created layers listed s) =
        createLayerModal_display s
      \<and> alerts (confirmLayerBtn_onclick created layers listed s) =
        alerts s @ [lit ''Error creating layer.'']
      \<and> requests (confirmLayerBtn_onclick created layers listed s) =
        requests s @
        [POST_json (lit ''/api/layer/new'')
           (Obj [(lit ''name'', Str (trim (newLayerNameInput s))),
                 (lit ''ebook_id'', Num (EBOOK_ID s)),
                 (lit ''study_group_id'', studyGroupId (newLayerGroupSelect_value s))])])"
  by (auto simp: openCreateLayerModal_def openCreateLayerModal_sync_def
      openCreateLayerModal_resume_def confirmLayerBtn_onclick_def Let_def fetch_def alert_def)

theorem layer_dialog_failures_witness:
  "createLayerModal_display (openCreateLayerModal Rejected blank_page) = lit ''none''
   \<and> alerts (openCreateLayerModal Rejected blank_page) = [lit ''Error loading groups.'']
   \<and> requests (openCreateLayerModal Rejected blank_page) = [GET (lit ''/api/user/groups'')]
   \<and> alerts (confirmLayerBtn_onclick (Response False NotJson) Rejected Rejected example_dialog) =
       [lit ''Error creating layer.'']
   \<and> createLayerModal_display
       (confirmLayerBtn_onclick (Response False NotJson) Rejected Rejected example_dialog) = lit ''flex''"
proof -
  have ne: "lit ''Notes'' \<noteq> []" by (simp add: lit_def)
  show ?thesis
    using layer_dialog_failures[where resp = Rejected and s = blank_page and created = Rejected]
          layer_dialog_failures[where resp = Rejected and s = example_dialog
            and created = "Response False NotJson" and b' = NotJson and layers = Rejected
            and listed = Rejected]
    by (simp add: example_dialog_fields trim_Notes ne blank_page_def)
qed

text \<open>
  C2 as stated fails on the create request: with the dialog open and a name typed, a
  rejected create request shows the message and leaves the dialog displayed.
\<close>

theorem create_failure_keeps_dialog_counterexample:
  "createLayerModal_display (confirmLayerBtn_onclick Rejected Rejected Rejected example_dialog) = lit ''flex''
   \<and> lit ''flex'' \<noteq> lit ''none''
   \<and> alerts (confirmLayerBtn_onclick Rejected Rejected Rejected example_dialog) =
       [lit ''Error creating layer.'']"
proof -
  have ne: "lit ''Notes'' \<noteq> []" by (simp add: lit_def)
  have d: "lit ''flex'' \<noteq> lit ''none''" by (simp add: lit_def)
  show ?thesis
    by (simp add: confirmLayerBtn_onclick_def Let_def example_dialog_fields trim_Notes ne d
        fetch_def alert_def)
qed

subsection \<open>Deleting an annotation\<close>

text \<open>
  No element \<open>renderAnnotations\<close> creates has an attribute \<open>data-id\<close>, so the
  selector of \<open>deleteAnnotation\<close> matches none of them.
\<close>

lemma remove_first_no_data_id:
  assumes "map_of a (lit ''data-id'') = None"
  shows "remove_first (matches_card i) (Element t a st h cs # ns) =
     (case remove_first (matches_card i) cs of
        Some cs' \<Rightarrow> Some (Element t a st h cs' # ns)
      | None \<Rightarrow> map_option ((#) (Element t a st h cs)) (remove_first (matches_card i) ns))"
  using assms by (simp add: matches_card_def getAttribute_def)

lemma no_data_id:
  "lit ''data-id'' \<noteq> lit ''class''" "lit ''data-id'' \<noteq> lit ''title''"
  by (simp_all add: lit_def)

lemma remove_first_text_nodes: "remove_first P (text_nodes t @ ns) = map_option ((@) (text_nodes t)) (remove_first P ns)"
  by (cases "remove_first P ns") (simp_all add: text_nodes_def)

lemma remove_first_deleteBtn:
  "remove_first (matches_card i) (deleteBtn a # ns) =
     map_option ((#) (deleteBtn a)) (remove_first (matches_card i) ns)"
  unfolding deleteBtn_def by (simp del: remove_first.simps(3) add: remove_first_no_data_id no_data_id)

lemma remove_first_author_div:
  "remove_first (matches_card i) (author_div u a # ns) =
     map_option ((#) (author_div u a)) (remove_first (matches_card i) ns)"
  unfolding author_div_def
  by (simp del: remove_first.simps(3) add: remove_first_no_data_id no_data_id remove_first_text_nodes remove_first_deleteBtn)

lemma remove_first_content_p:
  "remove_first (matches_card i) (content_p a # ns) =
     map_option ((#) (content_p a)) (remove_first (matches_card i) ns)"
  unfolding content_p_def
  using remove_first_text_nodes[of "matches_card i" "content a" "[]"]
  by (simp del: remove_first.simps(3) add: remove_first_no_data_id no_data_id)

lemma remove_first_pageSpan:
  "remove_first (matches_card i) (pageSpan a # ns) =
     map_option ((#) (pageSpan a)) (remove_first (matches_card i) ns)"
  unfolding pageSpan_def
  using remove_first_text_nodes[of "matches_card i" _ "[]"]
  by (simp del: remove_first.simps(3) add: remove_first_no_data_id no_data_id)

lemma remove_first_quote:
  "remove_first (matches_card i) (quote a # ns) =
     map_option ((#) (quote a)) (remove_first (matches_card i) ns)"
  unfolding quote_def
  by (simp del: remove_first.simps(3) add: remove_first_no_data_id no_data_id remove_first_text_nodes remove_first_pageSpan)

lemma card_not_removed:
  "remove_first (matches_card i) (annotation_card u a # ns) =
     map_option ((#) (annotation_card u a)) (remove_first (matches_card i) ns)"
  unfolding annotation_card_def
  by (simp del: remove_first.simps(3) add: remove_first_no_data_id no_data_id remove_first_author_div
      remove_first_content_p remove_first_quote)

lemma no_card_removed: "remove_first (matches_card i) (map (annotation_card u) anns) = None"
  by (induction anns) (simp_all add: card_not_removed)

lemma delete_leaves_rendered_list:
  "annotationList (deleteAnnotation i confirmed resp (renderAnnotations anns s)) =
     annotationList (renderAnnotations anns s)"
  by (simp del: remove_first.simps(3)
      add: deleteAnnotation_def renderAnnotations_def fetch_def Let_def no_card_removed
      paragraph_node_def remove_first_no_data_id no_data_id
      split: response.splits)

lemma string_of_int_7: "string_of_int 7 = lit ''7''"
  by (simp add: string_of_int_def digits.simps digit_char_def lit_def)

text \<open>
  C1, evaluated. The list shows the card of annotation 7, written by the current user, so
  the card has its delete button. The user clicks it and confirms, and the backend answers
  with a success status: the delete request is issued, and the list still shows the card.
\<close>

theorem confirmed_delete_keeps_card:
  "annotationList (renderAnnotations [example_annotation] blank_page) =
     [annotation_card 1 example_annotation]
   \<and> author_id example_annotation = CURRENT_USER_ID blank_page
   \<and> annotationList
     (deleteAnnotation (annotation_id example_annotation) True (Response True (NotJson :: jsval body))
        (renderAnnotations [example_annotation] blank_page)) =
     [annotation_card 1 example_annotation]
   \<and> requests
     (deleteAnnotation (annotation_id example_annotation) True (Response True (NotJson :: jsval body))
        (renderAnnotations [example_annotation] blank_page)) =
     [POST (lit ''/api/annotation/'' @ lit ''7'' @ lit ''/delete'')]"
proof -
  have a: "annotationList (renderAnnotations [example_annotation] blank_page) =
           [annotation_card 1 example_annotation]"
    by (simp add: renderAnnotations_def blank_page_def)
  have b: "requests (deleteAnnotation (annotation_id example_annotation) True
        (Response True (NotJson :: jsval body))
        (renderAnnotations [example_annotation] blank_page)) =
     [POST (lit ''/api/annotation/'' @ lit ''7'' @ lit ''/delete'')]"
    by (simp add: deleteAnnotation_def Let_def fetch_def renderAnnotations_def blank_page_def
        string_of_int_7 example_annotation_def split: option.splits)
  show ?thesis
    using a b delete_leaves_rendered_list[of "annotation_id example_annotation" True
            "Response True (NotJson :: jsval body)" "[example_annotation]" blank_page]
    by (simp add: example_annotation_def blank_page_def)
qed

subsection \<open>The current layer\<close>

lemma currentLayerId_observe_entry [simp]: "currentLayerId (observe_entry e s) = currentLayerId s"
  by (simp add: observe_entry_def split: option.splits)

lemma currentLayerId_pageObserver_callback [simp]:
  "currentLayerId (pageObserver_callback entries s) = currentLayerId s"
  unfolding pageObserver_callback_def by (induction entries arbitrary: s) simp_all

lemma currentLayerId_mouseup_listener [simp]:
  "currentLayerId (mouseup_listener sel s) = currentLayerId s"
  by (simp add: mouseup_listener_def Let_def)

lemma currentLayerId_mouseup_funpow [simp]:
  "currentLayerId ((mouseup_listener sel ^^ n) s) = currentLayerId s"
  by (induction n) simp_all

lemma currentLayerId_renderAnnotations_body [simp]:
  "currentLayerId (renderAnnotations_body parsed_body s) = currentLayerId s"
  by (simp add: renderAnnotations_body_def renderAnnotations_def split: listing.splits)

lemma currentLayerId_fetchAnnotations_sync:
  "currentLayerId (fst (fetchAnnotations_sync l s)) = (if truthy l then l else currentLayerId s)"
  by (simp add: fetchAnnotations_sync_def fetch_def Let_def split: option.splits)

lemma currentLayerId_fetchAnnotations:
  "currentLayerId (fetchAnnotations l r s) = (if truthy l then l else currentLayerId s)"
  by (simp add: fetchAnnotations_def fetchAnnotations_sync_def fetchAnnotations_resume_def
      fetch_def Let_def split: response.splits body.splits option.splits)

lemma currentLayerId_saveAnnotation [simp]:
  "currentLayerId (saveAnnotation created listed s) = currentLayerId s"
  by (simp add: saveAnnotation_def fetchAnnotations_sync_def fetchAnnotations_resume_def
      fetch_def alert_def Let_def
      split: response.splits body.splits bool.splits option.splits)

lemma currentLayerId_deleteAnnotation [simp]:
  "currentLayerId (deleteAnnotation i c r s) = currentLayerId s"
  by (simp add: deleteAnnotation_def fetch_def Let_def split: response.splits option.splits)

lemma currentLayerId_openCreateLayerModal [simp]:
  "currentLayerId (openCreateLayerModal r s) = currentLayerId s"
  by (simp add: openCreateLayerModal_def openCreateLayerModal_sync_def
      openCreateLayerModal_resume_def fetch_def alert_def Let_def
      split: response.splits body.splits bool.splits listing.splits)

lemma currentLayerId_fetchLayers [simp]: "currentLayerId (fetchLayers r s) = currentLayerId s"
  by (simp add: fetchLayers_def fetch_def Let_def split: response.splits body.splits listing.splits)

lemma currentLayerId_askAiToExplain [simp]:
  "currentLayerId (askAiToExplain r s) = currentLayerId s"
  by (simp add: askAiToExplain_def fetch_def alert_def Let_def
      split: response.splits body.splits option.splits)

lemma currentLayerId_scroll_to_page [simp]:
  "currentLayerId (scroll_to_page n s) = currentLayerId s"
  by (simp add: scroll_to_page_def split: option.splits)

lemma currentLayerId_confirm:
  "currentLayerId (confirmLayerBtn_onclick created layers listed s) =
     (case requested (ClickConfirmLayer created layers listed) s of
        None \<Rightarrow> currentLayerId s | Some l \<Rightarrow> l)"
  by (simp add: confirmLayerBtn_onclick_def Let_def currentLayerId_fetchAnnotations fetch_def
      alert_def split: response.splits body.splits bool.splits)

lemma currentLayerId_step:
  "currentLayerId (step e s) = (case requested e s of None \<Rightarrow> currentLayerId s | Some l \<Rightarrow> l)"
proof (cases e)
  case (ClickConfirmLayer created layers listed)
  then show ?thesis by (simp only: step.simps currentLayerId_confirm)
next
  case (ClickSave created listed)
  then show ?thesis by simp
qed (simp_all add: currentLayerId_fetchAnnotations cancelLayerBtn_onclick_def)

lemma currentLayerId_run:
  "currentLayerId (run es s) =
     (if requested_layers es s = [] then currentLayerId s else last (requested_layers es s))"
  unfolding run_def
proof (induction es arbitrary: s)
  case Nil
  then show ?case by simp
next
  case (Cons e es)
  show ?case
    by (simp add: Cons.IH currentLayerId_step split: option.splits)
qed

lemma requested_truthy: "requested e s = Some l \<Longrightarrow> truthy l"
  by (cases e) (auto split: if_splits response.splits body.splits bool.splits)

lemma requested_layers_truthy: "list_all truthy (requested_layers es s)"
  by (induction es arbitrary: s) (auto split: option.splits dest: requested_truthy)

text \<open>
  The layer id is \<open>null\<close>, the value of an option of the layer select, or the id of a
  created layer; it has a string form in every state the page reaches.
\<close>

lemma requested_string_form:
  assumes "requested e s = Some l" and "\<exists>layer. to_string (currentLayerId s) = Some layer"
  shows "\<exists>layer. to_string l = Some layer"
  using assms by (cases e) (auto split: if_splits response.splits body.splits bool.splits)

lemma step_string_form:
  assumes "\<exists>layer. to_string (currentLayerId s) = Some layer"
  shows "\<exists>layer. to_string (currentLayerId (step e s)) = Some layer"
proof (cases "requested e s")
  case None
  with assms show ?thesis by (simp add: currentLayerId_step)
next
  case (Some l)
  with requested_string_form[OF Some assms] show ?thesis by (simp add: currentLayerId_step)
qed

lemma run_string_form:
  assumes "\<exists>layer. to_string (currentLayerId s) = Some layer"
  shows "\<exists>layer. to_string (currentLayerId (run es s)) = Some layer"
  using assms unfolding run_def
  by (induction es arbitrary: s) (simp_all add: step_string_form)

lemma currentLayerId_renderPage [simp]: "currentLayerId (renderPage p s) = currentLayerId s"
  by (simp add: renderPage_def Let_def split: option.splits page_outcome.splits)

lemma currentLayerId_renderPages [simp]: "currentLayerId (renderPages p s) = currentLayerId s"
  by (induction p s rule: renderPages.induct; subst renderPages.simps; simp)

lemma currentLayerId_startup: "currentLayerId (startup layers loaded page) = Null"
  by (simp add: startup_def loadPdf_def renderAllPages_def setupTextSelection_def alert_def
      declare_variables_def split: option.splits)

lemma layer_id_has_string_form:
  "\<exists>layer. to_string (currentLayerId (run es (startup layers loaded page))) = Some layer"
  by (rule run_string_form) (simp add: currentLayerId_startup)

lemma save_request:
  assumes "trim (annotationTextarea s) \<noteq> []" and "truthy (currentLayerId s)"
  shows "\<exists>rest. requests (saveAnnotation created listed s) =
      requests s @
      POST_json (lit ''/api/annotation/new'')
        (Obj [(lit ''content'', Str (trim (annotationTextarea s))),
              (lit ''layer_id'', currentLayerId s),
              (lit ''highlighted_text'', Str (currentHighlightedText s)),
              (lit ''position_data'', Str (lit ''Page '' @ string_of_int (currentPageNum s)))]) # rest"
  using assms
  by (simp add: saveAnnotation_def fetchAnnotations_sync_def fetchAnnotations_resume_def
      fetch_def alert_def Let_def split: response.splits body.splits bool.splits option.splits)

text \<open>
  The log of requests agrees with \<open>requested\<close>: the requests for the annotations of a
  layer that an event adds to the log are those of its call of \<open>fetchAnnotations\<close>.
\<close>

lemma is_list_request_simps:
  "\<not> is_list_request (POST_json u v)"
  "\<not> is_list_request (POST u)"
  "\<not> is_list_request (GET (lit ''/api/user/groups''))"
  "\<not> is_list_request (GET (lit ''/api/book/'' @ x))"
  "is_list_request (GET (lit ''/api/layer/'' @ x))"
  by (simp_all add: is_list_request_def POST_json_def POST_def GET_def lit_def)

lemma list_requests_fetchAnnotations:
  "list_requests (fetchAnnotations l r s) =
     list_requests s @ (if truthy l then list_request_of (Some l) else [])"
  unfolding list_requests_def requests_fetchAnnotations
  apply (cases "truthy l")
   apply (cases "to_string l")
    apply simp
   apply (simp add: is_list_request_simps)
  apply simp
  done

lemma list_requests_saveAnnotation:
  "list_requests (saveAnnotation created listed s) =
     list_requests s @ list_request_of (requested (ClickSave created listed) s)"
  by (simp add: list_requests_def saveAnnotation_def fetchAnnotations_sync_def
      fetchAnnotations_resume_def fetch_def alert_def Let_def is_list_request_simps
      split: response.splits body.splits bool.splits option.splits)

lemma list_requests_confirm:
  "list_requests (confirmLayerBtn_onclick created layers listed s) =
     list_requests s @ list_request_of (requested (ClickConfirmLayer created layers listed) s)"
proof (cases "trim (newLayerNameInput s) = []")
  case True
  then show ?thesis
    by (simp add: list_requests_def confirmLayerBtn_onclick_def Let_def
        split: response.splits body.splits bool.splits)
next
  case False
  show ?thesis
  proof (cases created)
    case Rejected
    with False show ?thesis
      by (simp add: list_requests_def confirmLayerBtn_onclick_def Let_def fetch_def
          is_list_request_simps)
  next
    case (Response status parsed_body)
    show ?thesis
    proof (cases status)
      case False
      with Response \<open>trim (newLayerNameInput s) \<noteq> []\<close> show ?thesis
        by (simp add: list_requests_def confirmLayerBtn_onclick_def Let_def fetch_def
            is_list_request_simps)
    next
      case True
      show ?thesis
      proof (cases parsed_body)
        case NotJson
        with True Response \<open>trim (newLayerNameInput s) \<noteq> []\<close> show ?thesis
          by (simp add: list_requests_def confirmLayerBtn_onclick_def Let_def fetch_def
              requests_fetchLayers is_list_request_simps)
      next
        case (Json newLayer)
        with True Response \<open>trim (newLayerNameInput s) \<noteq> []\<close>
        have "requests (confirmLayerBtn_onclick created layers listed s) =
            requests s @
            [POST_json (lit ''/api/layer/new'')
               (Obj [(lit ''name'', Str (trim (newLayerNameInput s))),
                     (lit ''ebook_id'', Num (EBOOK_ID s)),
                     (lit ''study_group_id'', studyGroupId (newLayerGroupSelect_value s))]),
             GET (lit ''/api/book/'' @ string_of_int (EBOOK_ID s) @ lit ''/layers'')]
            @ (if layer_id newLayer \<noteq> 0
               then [GET (lit ''/api/layer/'' @ string_of_int (layer_id newLayer) @ lit ''/annotations'')]
               else [])"
          by (simp add: confirmLayerBtn_onclick_def Let_def fetch_def requests_fetchLayers
              requests_fetchAnnotations)
        with Json True Response \<open>trim (newLayerNameInput s) \<noteq> []\<close> show ?thesis
          by (simp add: list_requests_def is_list_request_simps)
      qed
    qed
  qed
qed

lemma requests_observe_entry [simp]: "requests (observe_entry e s) = requests s"
  by (simp add: observe_entry_def split: option.splits)

lemma requests_pageObserver_callback [simp]:
  "requests (pageObserver_callback entries s) = requests s"
  unfolding pageObserver_callback_def by (induction entries arbitrary: s) simp_all

lemma requests_mouseup_listener [simp]: "requests (mouseup_listener sel s) = requests s"
  by (simp add: mouseup_listener_def Let_def)

lemma requests_mouseup_funpow [simp]: "requests ((mouseup_listener sel ^^ n) s) = requests s"
  by (induction n) simp_all

lemma list_requests_deleteAnnotation:
  "list_requests (deleteAnnotation i c r s) = list_requests s"
  by (simp add: list_requests_def deleteAnnotation_def fetch_def Let_def is_list_request_simps
      split: response.splits option.splits)

lemma list_requests_openCreateLayerModal:
  "list_requests (openCreateLayerModal r s) = list_requests s"
  by (simp add: list_requests_def openCreateLayerModal_def openCreateLayerModal_sync_def
      openCreateLayerModal_resume_def fetch_def alert_def Let_def is_list_request_simps
      split: response.splits body.splits bool.splits listing.splits)

lemma list_requests_askAiToExplain:
  "list_requests (askAiToExplain r s) = list_requests s"
  by (simp add: list_requests_def askAiToExplain_def fetch_def alert_def Let_def
      is_list_request_simps split: response.splits body.splits option.splits)

lemma list_requests_scroll_to_page: "list_requests (scroll_to_page n s) = list_requests s"
  by (simp add: list_requests_def scroll_to_page_def split: option.splits)

lemma list_requests_step:
  "list_requests (step e s) = list_requests s @ list_request_of (requested e s)"
proof (cases e)
  case (ChangeLayer v listed)
  then show ?thesis
    by (simp add: list_requests_fetchAnnotations) (simp add: list_requests_def)
next
  case (ClickSave created listed)
  then show ?thesis by (simp only: step.simps list_requests_saveAnnotation)
next
  case (ClickConfirmLayer created layers listed)
  then show ?thesis by (simp only: step.simps list_requests_confirm)
qed (simp_all add: list_requests_deleteAnnotation list_requests_openCreateLayerModal
      list_requests_askAiToExplain list_requests_scroll_to_page cancelLayerBtn_onclick_def,
     simp_all add: list_requests_def)

lemma list_requests_run:
  "list_requests (run es s) =
     list_requests s @ concat (map (\<lambda>l. list_request_of (Some l)) (requested_layers es s))"
  unfolding run_def
proof (induction es arbitrary: s)
  case Nil
  then show ?case by simp
next
  case (Cons e es)
  show ?case
    by (cases "requested e s") (simp_all add: Cons.IH list_requests_step)
qed

lemma string_of_int_not_empty: "string_of_int n \<noteq> []"
  by (simp add: string_of_int_def digits_not_Nil lit_def)

text \<open>
  C9. The guard of \<open>fetchAnnotations\<close> is \<open>if (!layerId)\<close>: the ids that pass it are
  the truthy ones, among them every value of an option of a layer and every id of a
  created layer other than 0. A call with such an id assigns it to \<open>currentLayerId\<close>
  and only then issues the request; the assignment is made in the part that runs before
  the first \<open>await\<close> and stands whatever the answer. A call with an id that does not
  pass the guard assigns nothing and issues no request. No other statement assigns
  \<open>currentLayerId\<close>: after any sequence of events it is the layer requested last
  (by a change of the select, by the refetch of a save, or for a layer just created, which
  the user never selected), and a save that passes the check of the content posts to
  that layer. The requests for annotations that the events add to the log are those for
  the requested layers, in that order.
\<close>

theorem save_posts_to_last_requested_layer:
  "(truthy l \<longrightarrow>
      currentLayerId (fst (fetchAnnotations_sync l s)) = l
      \<and> currentLayerId (fetchAnnotations l r s) = l
      \<and> (\<forall>layer. to_string l = Some layer \<longrightarrow>
            fst (fetchAnnotations_sync l s) =
              fetch (GET (lit ''/api/layer/'' @ layer @ lit ''/annotations''))
                (s\<lparr>currentLayerId := l,
                   annotationList :=
                     [paragraph_node
                        [(lit ''text-align'', lit ''center''), (lit ''margin-top'', lit ''2rem'')]
                        (lit ''Loading...'')]\<rparr>)
            \<and> requests (fetchAnnotations l r s) =
                requests s @ [GET (lit ''/api/layer/'' @ layer @ lit ''/annotations'')]))
   \<and> (\<not> truthy l \<longrightarrow>
      currentLayerId (fetchAnnotations l r s) = currentLayerId s
      \<and> requests (fetchAnnotations l r s) = requests s)
   \<and> currentLayerId (step (ChangeLayer (string_of_int n) r) s) = Str (string_of_int n)
   \<and> currentLayerId (run es s) =
       (if requested_layers es s = [] then currentLayerId s else last (requested_layers es s))
   \<and> list_requests (run es s) =
       list_requests s @ concat (map (\<lambda>l. list_request_of (Some l)) (requested_layers es s))
   \<and> (requested_layers es s \<noteq> [] \<and> trim (annotationTextarea (run es s)) \<noteq> [] \<longrightarrow>
       (\<exists>rest. requests (saveAnnotation created listed (run es s)) =
          requests (run es s) @
          POST_json (lit ''/api/annotation/new'')
            (Obj [(lit ''content'', Str (trim (annotationTextarea (run es s)))),
                  (lit ''layer_id'', last (requested_layers es s)),
                  (lit ''highlighted_text'', Str (currentHighlightedText (run es s))),
                  (lit ''position_data'',
                   Str (lit ''Page '' @ string_of_int (currentPageNum (run es s))))]) # rest))"
proof -
  have a: "truthy l \<longrightarrow>
      currentLayerId (fst (fetchAnnotations_sync l s)) = l
      \<and> currentLayerId (fetchAnnotations l r s) = l
      \<and> (\<forall>layer. to_string l = Some layer \<longrightarrow>
            fst (fetchAnnotations_sync l s) =
              fetch (GET (lit ''/api/layer/'' @ layer @ lit ''/annotations''))
                (s\<lparr>currentLayerId := l,
                   annotationList :=
                     [paragraph_node
                        [(lit ''text-align'', lit ''center''), (lit ''margin-top'', lit ''2rem'')]
                        (lit ''Loading...'')]\<rparr>)
            \<and> requests (fetchAnnotations l r s) =
                requests s @ [GET (lit ''/api/layer/'' @ layer @ lit ''/annotations'')])"
  proof (intro impI conjI allI)
    assume l: "truthy l"
    then show "currentLayerId (fst (fetchAnnotations_sync l s)) = l"
      by (simp add: currentLayerId_fetchAnnotations_sync)
    from l show "currentLayerId (fetchAnnotations l r s) = l"
      by (simp add: currentLayerId_fetchAnnotations)
    fix layer
    assume "to_string l = Some layer"
    with l show "fst (fetchAnnotations_sync l s) =
              fetch (GET (lit ''/api/layer/'' @ layer @ lit ''/annotations''))
                (s\<lparr>currentLayerId := l,
                   annotationList :=
                     [paragraph_node
                        [(lit ''text-align'', lit ''center''), (lit ''margin-top'', lit ''2rem'')]
                        (lit ''Loading...'')]\<rparr>)"
      and "requests (fetchAnnotations l r s) =
                requests s @ [GET (lit ''/api/layer/'' @ layer @ lit ''/annotations'')]"
      by (simp_all add: fetchAnnotations_sync_def Let_def requests_fetchAnnotations)
  qed
  have b: "\<not> truthy l \<longrightarrow>
      currentLayerId (fetchAnnotations l r s) = currentLayerId s
      \<and> requests (fetchAnnotations l r s) = requests s"
    by (simp add: currentLayerId_fetchAnnotations requests_fetchAnnotations)
  have b': "currentLayerId (step (ChangeLayer (string_of_int n) r) s) = Str (string_of_int n)"
    by (simp add: currentLayerId_fetchAnnotations string_of_int_not_empty)
  have c: "currentLayerId (run es s) =
       (if requested_layers es s = [] then currentLayerId s else last (requested_layers es s))"
    by (rule currentLayerId_run)
  have d: "requested_layers es s \<noteq> [] \<and> trim (annotationTextarea (run es s)) \<noteq> [] \<longrightarrow>
       (\<exists>rest. requests (saveAnnotation created listed (run es s)) =
          requests (run es s) @
          POST_json (lit ''/api/annotation/new'')
            (Obj [(lit ''content'', Str (trim (annotationTextarea (run es s)))),
                  (lit ''layer_id'', last (requested_layers es s)),
                  (lit ''highlighted_text'', Str (currentHighlightedText (run es s))),
                  (lit ''position_data'',
                   Str (lit ''Page '' @ string_of_int (currentPageNum (run es s))))]) # rest)"
  proof (intro impI, elim conjE)
    assume ne: "requested_layers es s \<noteq> []" and t: "trim (annotationTextarea (run es s)) \<noteq> []"
    from ne have cur: "currentLayerId (run es s) = last (requested_layers es s)"
      by (simp add: currentLayerId_run)
    from ne requested_layers_truthy[of es s] have "truthy (last (requested_layers es s))"
      by (simp add: list_all_iff)
    with cur have "truthy (currentLayerId (run es s))" by simp
    from save_request[OF t this, of created listed] cur
    show "\<exists>rest. requests (saveAnnotation created listed (run es s)) =
          requests (run es s) @
          POST_json (lit ''/api/annotation/new'')
            (Obj [(lit ''content'', Str (trim (annotationTextarea (run es s)))),
                  (lit ''layer_id'', last (requested_layers es s)),
                  (lit ''highlighted_text'', Str (currentHighlightedText (run es s))),
                  (lit ''position_data'',
                   Str (lit ''Page '' @ string_of_int (currentPageNum (run es s))))]) # rest"
      by simp
  qed
  from a b b' c d list_requests_run[of es s] show ?thesis by blast
qed

lemma example_run:
  "run [ChangeLayer (lit ''3'') Rejected, EditNote (lit ''my note'')] blank_page =
     blank_page\<lparr>layerSelect_value := lit ''3'', currentLayerId := Str (lit ''3''),
       annotationList := [paragraph_node
          [(lit ''text-align'', lit ''center''), (lit ''margin-top'', lit ''2rem'')] (lit ''Loading...'')],
       requests := [GET (lit ''/api/layer/'' @ lit ''3'' @ lit ''/annotations'')],
       annotationTextarea := lit ''my note''\<rparr>"
proof -
  have ne: "lit ''3'' \<noteq> []" by (simp add: lit_def)
  have nn: "normalize_newlines (lit ''my note'') = lit ''my note''" by (simp add: lit_def)
  show ?thesis
    by (simp add: run_def fetchAnnotations_def fetchAnnotations_sync_def
        fetchAnnotations_resume_def fetch_def blank_page_def ne nn)
qed

lemma example_created:
  "requested_layers
     [ClickConfirmLayer
        (Response True (Json \<lparr>layer_id = 7, layer_name = lit ''Notes'', creator_name = lit ''Ann''\<rparr>))
        Rejected Rejected,
      EditNote (lit ''my note'')] example_dialog = [Num 7]"
proof -
  have ne: "lit ''Notes'' \<noteq> []" by (simp add: lit_def)
  show ?thesis
    by (simp add: example_dialog_fields trim_Notes ne del: step.simps)
qed

theorem save_posts_to_last_requested_layer_witness:
  "currentLayerId (run [ChangeLayer (lit ''3'') Rejected, EditNote (lit ''my note'')] blank_page) =
     Str (lit ''3'')
   \<and> (\<exists>rest. requests
        (saveAnnotation (Rejected :: jsval response) Rejected
           (run [ChangeLayer (lit ''3'') Rejected, EditNote (lit ''my note'')] blank_page)) =
        [GET (lit ''/api/layer/'' @ lit ''3'' @ lit ''/annotations''),
         POST_json (lit ''/api/annotation/new'')
            (Obj [(lit ''content'', Str (lit ''my note'')),
                  (lit ''layer_id'', Str (lit ''3'')),
                  (lit ''highlighted_text'', Str []),
                  (lit ''position_data'', Str (lit ''Page '' @ lit ''1''))])] @ rest)
   \<and> list_requests
       (run [ChangeLayer (lit ''3'') Rejected, EditNote (lit ''my note'')] blank_page) =
       [GET (lit ''/api/layer/'' @ lit ''3'' @ lit ''/annotations'')]
   \<and> currentLayerId (fetchAnnotations (Num 7) Rejected example_draft) = Num 7
   \<and> requests (fetchAnnotations (Num 7) Rejected example_draft) =
       [GET (lit ''/api/layer/'' @ lit ''7'' @ lit ''/annotations'')]
   \<and> currentLayerId (fetchAnnotations (Num 0) Rejected example_draft) = Num 3
   \<and> currentLayerId
       (run [ClickConfirmLayer
               (Response True
                  (Json \<lparr>layer_id = 7, layer_name = lit ''Notes'', creator_name = lit ''Ann''\<rparr>))
               Rejected Rejected,
             EditNote (lit ''my note'')] example_dialog) = Num 7"
proof -
  have ne: "lit ''3'' \<noteq> []" "lit ''my note'' \<noteq> []" by (simp_all add: lit_def)
  have one: "string_of_int 1 = lit ''1''"
    by (simp add: string_of_int_def digits.simps digit_char_def lit_def)
  have seven: "string_of_int 7 = lit ''7''"
    by (simp add: string_of_int_def digits.simps digit_char_def lit_def)
  have bp: "currentHighlightedText blank_page = []" "currentPageNum blank_page = 1"
    "requests blank_page = []" "list_requests blank_page = []"
    by (simp_all add: blank_page_def list_requests_def)
  have rl: "requested_layers [ChangeLayer (lit ''3'') Rejected, EditNote (lit ''my note'')] blank_page
            = [Str (lit ''3'')]"
    by (simp add: ne)
  let ?created = "[ClickConfirmLayer
               (Response True
                  (Json \<lparr>layer_id = 7, layer_name = lit ''Notes'', creator_name = lit ''Ann''\<rparr>))
               Rejected Rejected,
             EditNote (lit ''my note'')]"
  have "currentLayerId (run ?created example_dialog) =
          (if requested_layers ?created example_dialog = [] then currentLayerId example_dialog
           else last (requested_layers ?created example_dialog))"
    using save_posts_to_last_requested_layer[where l = "Num 0" and s = example_dialog
            and r = Rejected and n = 3 and created = "Rejected :: jsval response"
            and listed = Rejected and es = ?created]
    by (elim conjE) assumption
  then have created: "currentLayerId (run ?created example_dialog) = Num 7"
    by (simp only: example_created) simp
  show ?thesis
    using save_posts_to_last_requested_layer[where l = "Num 0" and s = example_draft and r = Rejected
            and es = "[]" and n = 3 and created = "Rejected :: jsval response" and listed = Rejected]
          save_posts_to_last_requested_layer[where l = "Num 7" and s = example_draft and r = Rejected
            and es = "[]" and n = 3 and created = "Rejected :: jsval response" and listed = Rejected]
          save_posts_to_last_requested_layer[where l = "Str (lit ''3'')" and s = blank_page
            and r = Rejected
            and es = "[ChangeLayer (lit ''3'') Rejected, EditNote (lit ''my note'')]"
            and created = "Rejected :: jsval response" and listed = Rejected and n = 3]
          created
    by (auto simp: rl example_run trim_my_note ne one seven example_draft_def bp)
qed

subsection \<open>The current page\<close>

lemma currentPageNum_renderPage [simp]: "currentPageNum (renderPage p s) = currentPageNum s"
  by (simp add: renderPage_def Let_def split: option.splits page_outcome.splits)

lemma observed_renderPage:
  "observed (renderPage p s) = observed s \<or> observed (renderPage p s) = observed s @ [page_wrapper_id p]"
  by (simp add: renderPage_def Let_def split: option.splits page_outcome.splits)

lemma renderPages_frame [simp]:
  "currentPageNum (renderPages p s) = currentPageNum s"
  "totalPages (renderPages p s) = totalPages s"
  by (induction p s rule: renderPages.induct; subst renderPages.simps; simp)+

lemma renderPages_observed:
  assumes "1 \<le> p"
    and "\<forall>i \<in> set (observed s). \<exists>k. 1 \<le> k \<and> k \<le> totalPages s \<and> i = page_wrapper_id k"
  shows "\<forall>i \<in> set (observed (renderPages p s)).
           \<exists>k. 1 \<le> k \<and> k \<le> totalPages s \<and> i = page_wrapper_id k"
  using assms
proof (induction p s rule: renderPages.induct)
  case (1 pageNum s)
  show ?case
  proof (cases "pageNum \<le> totalPages s")
    case False
    with 1 show ?thesis by (subst renderPages.simps) simp
  next
    case True
    have obs: "\<forall>i \<in> set (observed (renderPage pageNum s)).
                 \<exists>k. 1 \<le> k \<and> k \<le> totalPages (renderPage pageNum s) \<and> i = page_wrapper_id k"
      using observed_renderPage[of pageNum s] "1.prems" True by auto
    from "1.IH"[OF True _ obs] "1.prems"(1) True show ?thesis
      by (subst renderPages.simps) simp
  qed
qed

lemma loadPdf_in_range:
  assumes "1 \<le> numPages doc" and "currentPageNum s = 1"
  shows "pages_in_range (loadPdf (Some doc) s)"
    and "totalPages (loadPdf (Some doc) s) = numPages doc"
proof -
  let ?s = "s\<lparr>pdfDoc := Some doc, totalPages := numPages doc,
                pageCountDisplay := string_of_int (numPages doc), viewerContainer := [], observed := []\<rparr>"
  have "\<forall>i \<in> set (observed (renderPages 1 ?s)).
           \<exists>k. 1 \<le> k \<and> k \<le> totalPages ?s \<and> i = page_wrapper_id k"
    by (rule renderPages_observed) simp_all
  with assms show "pages_in_range (loadPdf (Some doc) s)"
    by (simp add: pages_in_range_def loadPdf_def renderAllPages_def setupTextSelection_def)
  show "totalPages (loadPdf (Some doc) s) = numPages doc"
    by (simp add: loadPdf_def renderAllPages_def setupTextSelection_def)
qed

lemma startup_in_range:
  assumes "1 \<le> numPages doc"
  shows "pages_in_range (startup layers (Some doc) page)"
    and "totalPages (startup layers (Some doc) page) = numPages doc"
proof -
  have "currentPageNum (fetchLayers layers (declare_variables page)) = 1"
    by (simp add: fetchLayers_def declare_variables_def fetch_def Let_def
        split: response.splits body.splits listing.splits)
  with assms show "pages_in_range (startup layers (Some doc) page)"
    and "totalPages (startup layers (Some doc) page) = numPages doc"
    unfolding startup_def by (rule loadPdf_in_range)+
qed

lemma same_pages_in_range: "same_pages s' s \<Longrightarrow> pages_in_range s \<Longrightarrow> pages_in_range s'"
  by (simp add: same_pages_def pages_in_range_def)

lemma same_pages_mouseup_listener: "same_pages (mouseup_listener sel s) s"
  by (simp add: same_pages_def mouseup_listener_def Let_def)

lemma same_pages_mouseup: "same_pages ((mouseup_listener sel ^^ n) s) s"
proof (induction n)
  case 0
  then show ?case by (simp add: same_pages_def)
next
  case (Suc n)
  with same_pages_mouseup_listener[of sel "(mouseup_listener sel ^^ n) s"]
  show ?case by (simp add: same_pages_def)
qed

lemma same_pages_renderAnnotations: "same_pages (renderAnnotations anns s) s"
  by (simp add: same_pages_def renderAnnotations_def)

lemma same_pages_renderAnnotations_body: "same_pages (renderAnnotations_body parsed_body s) s"
  by (simp add: same_pages_def renderAnnotations_body_def renderAnnotations_def
      split: listing.splits)

lemma same_pages_fetchAnnotations: "same_pages (fetchAnnotations l r s) s"
  using same_pages_renderAnnotations_body
  by (simp add: same_pages_def fetchAnnotations_def fetchAnnotations_sync_def
      fetchAnnotations_resume_def fetch_def Let_def
      split: response.splits body.splits option.splits)

lemma same_pages_fetchLayers: "same_pages (fetchLayers r s) s"
  by (simp add: same_pages_def fetchLayers_def fetch_def Let_def
      split: response.splits body.splits listing.splits)

lemma same_pages_saveAnnotation: "same_pages (saveAnnotation created listed s) s"
  using same_pages_renderAnnotations_body
  by (simp add: same_pages_def saveAnnotation_def fetchAnnotations_sync_def
      fetchAnnotations_resume_def fetch_def alert_def Let_def
      split: response.splits body.splits bool.splits option.splits)

lemma same_pages_deleteAnnotation: "same_pages (deleteAnnotation i c r s) s"
  by (simp add: same_pages_def deleteAnnotation_def fetch_def Let_def
      split: response.splits option.splits)

lemma same_pages_openCreateLayerModal: "same_pages (openCreateLayerModal r s) s"
  by (simp add: same_pages_def openCreateLayerModal_def openCreateLayerModal_sync_def
      openCreateLayerModal_resume_def fetch_def alert_def Let_def
      split: response.splits body.splits bool.splits listing.splits)

lemma same_pages_confirm: "same_pages (confirmLayerBtn_onclick created layers listed s) s"
  using same_pages_fetchLayers same_pages_fetchAnnotations
  by (simp add: same_pages_def confirmLayerBtn_onclick_def fetch_def alert_def Let_def
      split: response.splits body.splits bool.splits)

lemma same_pages_askAiToExplain: "same_pages (askAiToExplain r s) s"
  by (simp add: same_pages_def askAiToExplain_def fetch_def alert_def Let_def
      split: response.splits body.splits option.splits)

lemma same_pages_scroll_to_page: "same_pages (scroll_to_page n s) s"
  by (simp add: same_pages_def scroll_to_page_def split: option.splits)

lemma same_pages_step:
  "(case e of Intersection _ \<Rightarrow> False | _ \<Rightarrow> True) \<Longrightarrow> same_pages (step e s) s"
  apply (cases e)
  apply (simp_all add: same_pages_mouseup same_pages_saveAnnotation same_pages_deleteAnnotation
      same_pages_openCreateLayerModal same_pages_confirm same_pages_askAiToExplain
      same_pages_scroll_to_page cancelLayerBtn_onclick_def)
  using same_pages_fetchAnnotations apply (simp_all add: same_pages_def)
  done

lemma observe_entry_in_range:
  assumes "pages_in_range s" and "target_id e \<in> set (observed s)"
  shows "pages_in_range (observe_entry e s)"
proof -
  from assms obtain k where k: "1 \<le> k" "k \<le> totalPages s" "target_id e = page_wrapper_id k"
    by (auto simp: pages_in_range_def)
  then have "page_of_id (target_id e) = Some k" by (simp add: page_of_id_wrapper)
  with assms(1) k show ?thesis
    by (simp add: observe_entry_def pages_in_range_def)
qed

lemma observed_observe_entry [simp]: "observed (observe_entry e s) = observed s"
  by (simp add: observe_entry_def split: option.splits)

lemma pageObserver_callback_in_range:
  assumes "pages_in_range s" and "\<forall>x \<in> set entries. target_id x \<in> set (observed s)"
  shows "pages_in_range (pageObserver_callback entries s)"
  using assms unfolding pageObserver_callback_def
  by (induction entries arbitrary: s) (simp_all add: observe_entry_in_range)

lemma step_in_range:
  assumes "pages_in_range s" and "reported s e"
  shows "pages_in_range (step e s)"
proof (cases e)
  case (Intersection entries)
  with assms show ?thesis
    by (simp add: reported_def list_all_iff pageObserver_callback_in_range)
next
qed (use assms(1) same_pages_step[of e s] in \<open>auto intro: same_pages_in_range\<close>)

lemma run_in_range:
  assumes "pages_in_range s" and "reported_run s es"
  shows "pages_in_range (run es s)"
  using assms unfolding run_def
  by (induction es arbitrary: s) (simp_all add: step_in_range)

lemma totalPages_observe_entry [simp]: "totalPages (observe_entry e s) = totalPages s"
  by (simp add: observe_entry_def split: option.splits)

lemma totalPages_step: "totalPages (step e s) = totalPages s"
proof (cases e)
  case (Intersection entries)
  have "totalPages (fold observe_entry entries s) = totalPages s"
    by (induction entries arbitrary: s) simp_all
  with Intersection show ?thesis by (simp add: pageObserver_callback_def)
qed (use same_pages_step[of e s] in \<open>auto simp: same_pages_def\<close>)

lemma totalPages_run: "totalPages (run es s) = totalPages s"
  unfolding run_def by (induction es arbitrary: s) (simp_all add: totalPages_step)

lemma callback_no_intersection:
  "list_all (\<lambda>x. \<not> isIntersecting x) entries \<Longrightarrow> pageObserver_callback entries s = s"
  unfolding pageObserver_callback_def
  by (induction entries arbitrary: s) (simp_all add: observe_entry_def)

lemma observe_entry_change:
  "currentPageNum (observe_entry x s) \<noteq> currentPageNum s \<Longrightarrow>
     isIntersecting x \<and> page_of_id (target_id x) = Some (currentPageNum (observe_entry x s))"
  by (auto simp: observe_entry_def split: option.splits if_splits)

lemma callback_change:
  "currentPageNum (fold observe_entry entries s) \<noteq> currentPageNum s \<Longrightarrow>
     list_ex (\<lambda>x. isIntersecting x
        \<and> page_of_id (target_id x) = Some (currentPageNum (fold observe_entry entries s))) entries"
proof (induction entries arbitrary: s)
  case Nil
  then show ?case by simp
next
  case (Cons x xs)
  show ?case
  proof (cases "currentPageNum (fold observe_entry xs (observe_entry x s)) = currentPageNum (observe_entry x s)")
    case True
    with Cons.prems have "currentPageNum (observe_entry x s) \<noteq> currentPageNum s" by simp
    from observe_entry_change[OF this] True show ?thesis by simp
  next
    case False
    from Cons.IH[OF False] show ?thesis by simp
  qed
qed

lemma step_change:
  assumes "currentPageNum (step e s) \<noteq> currentPageNum s"
  shows "\<exists>entries. e = Intersection entries
     \<and> list_ex (\<lambda>x. isIntersecting x
          \<and> page_of_id (target_id x) = Some (currentPageNum (step e s))) entries"
proof (cases e)
  case (Intersection entries)
  with assms callback_change[of entries s] show ?thesis
    by (simp add: pageObserver_callback_def)
qed (use assms same_pages_step[of e s] in \<open>auto simp: same_pages_def\<close>)

text \<open>
  What the threshold of the observer means for the callback: an entry it reports counts as
  intersecting exactly when at least half of its target is visible.
\<close>

lemma reported_half:
  assumes "reported s (Intersection entries)" and "x \<in> set entries"
  shows "isIntersecting x \<longleftrightarrow> 1 / 2 \<le> intersectionRatio x"
    and "List.member (observed s) (target_id x)"
  using assms by (auto simp: reported_def pageObserver_options_def list_all_iff)

lemma reported_below_half:
  assumes "reported s (Intersection entries)"
    and "list_all (\<lambda>x. intersectionRatio x < 1 / 2) entries"
  shows "step (Intersection entries) s = s"
proof -
  have "list_all (\<lambda>x. \<not> isIntersecting x) entries"
    unfolding list_all_iff
  proof
    fix x
    assume x: "x \<in> set entries"
    with assms(2) have "intersectionRatio x < 1 / 2" by (simp add: list_all_iff)
    with reported_half(1)[OF assms(1) x] show "\<not> isIntersecting x" by simp
  qed
  then show ?thesis by (simp add: callback_no_intersection)
qed

lemma reported_change:
  assumes "reported s e" and "currentPageNum (step e s) \<noteq> currentPageNum s"
  shows "\<exists>entries. e = Intersection entries
     \<and> list_ex (\<lambda>x. 1 / 2 \<le> intersectionRatio x
          \<and> List.member (observed s) (target_id x)
          \<and> page_of_id (target_id x) = Some (currentPageNum (step e s))) entries"
proof -
  from step_change[OF assms(2)] obtain entries x
    where e: "e = Intersection entries" and x: "x \<in> set entries" "isIntersecting x"
      "page_of_id (target_id x) = Some (currentPageNum (step e s))"
    by (auto simp: list_ex_iff)
  from assms(1) e have r: "reported s (Intersection entries)" by simp
  from reported_half[OF r x(1)] x e show ?thesis
    by (auto simp: list_ex_iff)
qed

lemma half_visible_sets_page:
  assumes "reported s (Intersection [x])" and "1 / 2 \<le> intersectionRatio x"
    and "target_id x = page_wrapper_id k" and "1 \<le> k"
  shows "currentPageNum (step (Intersection [x]) s) = k"
proof -
  from reported_half(1)[OF assms(1), of x] assms(2) have "isIntersecting x" by simp
  with assms(3,4) show ?thesis
    by (simp add: pageObserver_callback_def observe_entry_def page_of_id_wrapper)
qed

text \<open>
  C7, as the code has it. The observer is created with the threshold 0.5: it reports
  entries only for the elements it observes, which are the wrappers \<open>renderAllPages\<close>
  created, and an entry counts as intersecting exactly when at least half of its target is
  visible. After the handler has loaded a document of at least one page, and after any
  sequence of events, \<open>currentPageNum\<close> is at least 1 and at most \<open>totalPages\<close>,
  the page count of the document. A report in which every entry is below the threshold
  (all pages scrolled away) leaves the state as it was; whenever an event changes
  \<open>currentPageNum\<close> it is a report of the observer with an entry for the wrapper of a
  page, visible to at least one half, whose page is the new value: nothing resets it. A
  report that the wrapper of page \<open>k\<close> has reached the threshold sets it to \<open>k\<close>.
\<close>

theorem currentPageNum_within_pages:
  "(1 \<le> numPages doc \<and> reported_run (startup layers (Some doc) page) es \<longrightarrow>
      1 \<le> currentPageNum (run es (startup layers (Some doc) page))
      \<and> currentPageNum (run es (startup layers (Some doc) page))
          \<le> totalPages (run es (startup layers (Some doc) page))
      \<and> totalPages (run es (startup layers (Some doc) page)) = numPages doc)
   \<and> (reported s (Intersection entries)
        \<and> list_all (\<lambda>x. intersectionRatio x < 1 / 2) entries \<longrightarrow>
        step (Intersection entries) s = s)
   \<and> (reported s e \<and> currentPageNum (step e s) \<noteq> currentPageNum s \<longrightarrow>
        (\<exists>entries. e = Intersection entries
           \<and> list_ex (\<lambda>x. 1 / 2 \<le> intersectionRatio x
                \<and> List.member (observed s) (target_id x)
                \<and> page_of_id (target_id x) = Some (currentPageNum (step e s))) entries))
   \<and> (reported s (Intersection [x]) \<and> 1 / 2 \<le> intersectionRatio x
        \<and> target_id x = page_wrapper_id k \<and> 1 \<le> k \<longrightarrow>
        currentPageNum (step (Intersection [x]) s) = k)"
proof -
  have a: "1 \<le> numPages doc \<and> reported_run (startup layers (Some doc) page) es \<longrightarrow>
      1 \<le> currentPageNum (run es (startup layers (Some doc) page))
      \<and> currentPageNum (run es (startup layers (Some doc) page))
          \<le> totalPages (run es (startup layers (Some doc) page))
      \<and> totalPages (run es (startup layers (Some doc) page)) = numPages doc"
  proof (intro impI, elim conjE)
    assume n: "1 \<le> numPages doc" and r: "reported_run (startup layers (Some doc) page) es"
    from run_in_range[OF startup_in_range(1)[OF n] r] startup_in_range(2)[OF n, of layers page]
    show "1 \<le> currentPageNum (run es (startup layers (Some doc) page))
      \<and> currentPageNum (run es (startup layers (Some doc) page))
          \<le> totalPages (run es (startup layers (Some doc) page))
      \<and> totalPages (run es (startup layers (Some doc) page)) = numPages doc"
      by (simp add: pages_in_range_def totalPages_run)
  qed
  have b: "reported s (Intersection entries)
        \<and> list_all (\<lambda>x. intersectionRatio x < 1 / 2) entries \<longrightarrow>
        step (Intersection entries) s = s"
    using reported_below_half by blast
  have c: "reported s e \<and> currentPageNum (step e s) \<noteq> currentPageNum s \<longrightarrow>
        (\<exists>entries. e = Intersection entries
           \<and> list_ex (\<lambda>x. 1 / 2 \<le> intersectionRatio x
                \<and> List.member (observed s) (target_id x)
                \<and> page_of_id (target_id x) = Some (currentPageNum (step e s))) entries)"
    using reported_change by blast
  have d: "reported s (Intersection [x]) \<and> 1 / 2 \<le> intersectionRatio x
        \<and> target_id x = page_wrapper_id k \<and> 1 \<le> k \<longrightarrow>
        currentPageNum (step (Intersection [x]) s) = k"
    using half_visible_sets_page by blast
  from a b c d show ?thesis by blast
qed

theorem currentPageNum_within_pages_witness:
  "currentPageNum
     (run [Intersection
             [\<lparr>isIntersecting = True, intersectionRatio = 3 / 4, target_id = page_wrapper_id 2\<rparr>],
           Intersection
             [\<lparr>isIntersecting = False, intersectionRatio = 1 / 4, target_id = page_wrapper_id 2\<rparr>]]
        (startup Rejected (Some example_document) blank_page)) = 2
   \<and> totalPages
     (run [Intersection
             [\<lparr>isIntersecting = True, intersectionRatio = 3 / 4, target_id = page_wrapper_id 2\<rparr>],
           Intersection
             [\<lparr>isIntersecting = False, intersectionRatio = 1 / 4, target_id = page_wrapper_id 2\<rparr>]]
        (startup Rejected (Some example_document) blank_page)) = 3
   \<and> currentPageNum
     (step (Intersection
              [\<lparr>isIntersecting = True, intersectionRatio = 3 / 4, target_id = page_wrapper_id 2\<rparr>])
        (startup Rejected (Some example_document) blank_page)) = 2
   \<and> currentPageNum (startup Rejected (Some example_document) blank_page) = 1
   \<and> list_ex (\<lambda>x. 1 / 2 \<le> intersectionRatio x \<and> page_of_id (target_id x) = Some 2)
       [\<lparr>isIntersecting = True, intersectionRatio = 3 / 4, target_id = page_wrapper_id 2\<rparr>]"
proof -
  let ?s = "startup Rejected (Some example_document) blank_page"
  let ?up = "\<lparr>isIntersecting = True, intersectionRatio = 3 / 4, target_id = page_wrapper_id 2\<rparr>"
  let ?down = "\<lparr>isIntersecting = False, intersectionRatio = 1 / 4, target_id = page_wrapper_id 2\<rparr>"
  let ?es = "[Intersection [?up], Intersection [?down]]"
  have n: "1 \<le> numPages example_document" by (simp add: example_document_def)
  have o: "observed (step (Intersection [?up]) ?s) = observed ?s"
    by (simp add: pageObserver_callback_def)
  have r1: "reported ?s (Intersection [?up])"
    by (simp add: reported_def pageObserver_options_def example_startup)
  have r2: "reported (step (Intersection [?up]) ?s) (Intersection [?down])"
    by (simp add: reported_def pageObserver_options_def o example_startup del: step.simps)
  have r: "reported_run ?s ?es"
    using r1 r2 by (simp del: step.simps)
  have up: "currentPageNum (step (Intersection [?up]) ?s) = 2"
    using currentPageNum_within_pages[where s = ?s and x = ?up and k = 2 and doc = example_document
        and layers = Rejected and page = blank_page and es = "[]" and entries = "[]"
        and e = "Intersection []"] r1
    by simp
  have changed: "currentPageNum (step (Intersection [?up]) ?s) \<noteq> currentPageNum ?s"
    by (simp only: up example_startup)
  have "\<exists>entries. Intersection [?up] = Intersection entries
     \<and> list_ex (\<lambda>x. 1 / 2 \<le> intersectionRatio x
          \<and> List.member (observed ?s) (target_id x)
          \<and> page_of_id (target_id x) = Some (currentPageNum (step (Intersection [?up]) ?s))) entries"
    using currentPageNum_within_pages[where s = ?s and x = ?up and k = 2 and doc = example_document
        and layers = Rejected and page = blank_page and es = "[]" and entries = "[]"
        and e = "Intersection [?up]"] r1 changed
    by blast
  then have from_half: "list_ex (\<lambda>x. 1 / 2 \<le> intersectionRatio x
      \<and> page_of_id (target_id x) = Some 2) [?up]"
    by (simp only: up) simp
  have down: "step (Intersection [?down]) (step (Intersection [?up]) ?s) = step (Intersection [?up]) ?s"
    using currentPageNum_within_pages[where s = "step (Intersection [?up]) ?s" and x = ?up and k = 2
        and doc = example_document and layers = Rejected and page = blank_page and es = "[]"
        and entries = "[?down]" and e = "Intersection []"] r2
    by (simp del: step.simps)
  have v: "currentPageNum (run ?es ?s) = 2"
    using up down by (simp add: run_def del: step.simps)
  from currentPageNum_within_pages[where doc = example_document and layers = Rejected
      and page = blank_page and es = ?es and s = ?s and x = ?up and k = 2 and entries = "[]"
      and e = "Intersection []"] n r v up from_half example_startup(2)
  show ?thesis by (simp add: example_document_def del: step.simps)
qed

text \<open>
  C7 as stated fails on a document with no page: \<open>currentPageNum\<close> keeps its initial
  value 1 and \<open>totalPages\<close> is 0.
\<close>

theorem empty_document_counterexample:
  "currentPageNum (startup Rejected (Some empty_document) blank_page) = 1
   \<and> totalPages (startup Rejected (Some empty_document) blank_page) = 0
   \<and> \<not> currentPageNum (startup Rejected (Some empty_document) blank_page)
          \<le> totalPages (startup Rejected (Some empty_document) blank_page)"
  by (simp add: startup_def loadPdf_def renderAllPages_def renderPages.simps
      setupTextSelection_def fetchLayers_def fetch_def declare_variables_def Let_def
      empty_document_def)

end
